theory Spec2Isabelle
  imports Complex_Main "HOL-Library.Word"
begin

section \<open>Message content translation (utils.ts)\<close>

text \<open>
  JavaScript strings are modelled as \<^typ>\<open>string\<close>; one \<^typ>\<open>char\<close> stands for one code unit,
  so the model's alphabet is the 8-bit one.

  \<^verbatim>\<open>Array.prototype.join(sep)\<close>: the elements separated by \<open>sep\<close>, nothing before the
  first element and nothing after the last one.
\<close>

fun joinWith :: "string \<Rightarrow> string list \<Rightarrow> string" where
  "joinWith sep [] = []"
| "joinWith sep [x] = x"
| "joinWith sep (x # y # ys) = x @ sep @ joinWith sep (y # ys)"

text \<open>
  A content part \<^verbatim>\<open>{ type: string; text?: string; image_url?: unknown }\<close>. The image
  payload is never read by the translation and is left out. An array entry may be
  \<^verbatim>\<open>undefined\<close>, hence the \<open>option\<close> in \<open>ContentArray\<close>.
\<close>

record content_part =
  part_type :: string
  part_text :: "string option"

datatype message_content =
    ContentString string
  | ContentArray "content_part option list"
  | ContentAbsent

text \<open>
  \<^verbatim>\<open>
  if (typeof content === 'string') return content;
  if (Array.isArray(content)) {
    const parts = content.filter(Boolean);
    return parts.filter(p => p.type === 'text' && !!p.text).map(p => p.text).join(' ');
  }
  return '';
  \<close>
  \<open>!!p.text\<close> is false for a missing text and for the empty string.
\<close>

definition filterBoolean :: "'a option list \<Rightarrow> 'a list" where
  "filterBoolean xs = map the (filter (\<lambda>x. x \<noteq> None) xs)"

definition isTextPart :: "content_part \<Rightarrow> bool" where
  "isTextPart p = (part_type p = ''text'' \<and> (case part_text p of None \<Rightarrow> False | Some t \<Rightarrow> t \<noteq> []))"

definition textOf :: "content_part \<Rightarrow> string" where
  "textOf p = (case part_text p of None \<Rightarrow> [] | Some t \<Rightarrow> t)"

definition convertContentToString :: "message_content \<Rightarrow> string" where
  "convertContentToString content =
     (case content of
        ContentString s \<Rightarrow> s
      | ContentArray arr \<Rightarrow> joinWith '' '' (map textOf (filter isTextPart (filterBoolean arr)))
      | ContentAbsent \<Rightarrow> [])"

record openai_message =
  msg_role :: "string option"
  msg_content :: message_content
  msg_tool_call_id :: "string option"

record ollama_chat_message =
  omsg_role :: "string option"
  omsg_content :: string

definition convertToOllamaMessages :: "openai_message list \<Rightarrow> ollama_chat_message list" where
  "convertToOllamaMessages messages =
     map (\<lambda>msg. \<lparr>omsg_role = msg_role msg, omsg_content = convertContentToString (msg_content msg)\<rparr>) messages"


section \<open>JSON text (the platform's \<^verbatim>\<open>JSON.parse\<close> and \<^verbatim>\<open>JSON.stringify\<close>)\<close>

text \<open>
  The streaming pipeline parses every upstream line with \<^verbatim>\<open>JSON.parse\<close>, the
  non-streaming handler tests its content with it, and the router reads the model name
  from a JSON body. The grammar is the one of ECMA-404: a lexer produces tokens, a
  pushdown recogniser builds the value. A number keeps its lexeme, of which the
  binary64 value is a function.

  The text that is parsed is over the code points below 256, each of them one UTF-16
  code unit. A string of a parsed value is a sequence of 16-bit code units, as a
  JavaScript string is, so an escape \<^verbatim>\<open>\uXXXX\<close> stands for the code unit it names
  and two strings are equal when their code units are.
\<close>

type_synonym code_unit = "16 word"

type_synonym js_string = "code_unit list"

definition codeUnit :: "char \<Rightarrow> code_unit" where
  "codeUnit c = of_nat (of_char c)"

definition jsString :: "string \<Rightarrow> js_string" where
  "jsString s = map codeUnit s"

datatype json =
    JNull
  | JBool bool
  | JNum string
  | JStr js_string
  | JArr "json list"
  | JObj "(js_string \<times> json) list"

abbreviation JText :: "string \<Rightarrow> json" where
  "JText s \<equiv> JStr (jsString s)"

datatype token =
    TLBrace | TRBrace | TLBrack | TRBrack | TColon | TComma
  | TStr js_string | TNum string | TTrue | TFalse | TNull

definition isJsonSpace :: "char \<Rightarrow> bool" where
  "isJsonSpace c = (c = CHR 0x20 \<or> c = CHR 0x09 \<or> c = CHR 0x0A \<or> c = CHR 0x0D)"

definition isDigit :: "char \<Rightarrow> bool" where
  "isDigit c = ((48::nat) \<le> of_char c \<and> of_char c \<le> (57::nat))"

definition hexValue :: "char \<Rightarrow> nat option" where
  "hexValue c =
     (let n = (of_char c :: nat) in
      if 48 \<le> n \<and> n \<le> 57 then Some (n - 48)
      else if 97 \<le> n \<and> n \<le> 102 then Some (n - 87)
      else if 65 \<le> n \<and> n \<le> 70 then Some (n - 55)
      else None)"

fun hex4 :: "string \<Rightarrow> nat option" where
  "hex4 [a, b, c, d] =
     (case (hexValue a, hexValue b, hexValue c, hexValue d) of
        (Some x, Some y, Some z, Some w) \<Rightarrow> Some (((x * 16 + y) * 16 + z) * 16 + w)
      | _ \<Rightarrow> None)"
| "hex4 _ = None"

definition unescape :: "char \<Rightarrow> char option" where
  "unescape e =
     (if e = CHR 0x22 then Some (CHR 0x22)
      else if e = CHR 0x5C then Some (CHR 0x5C)
      else if e = CHR ''/'' then Some (CHR ''/'')
      else if e = CHR ''b'' then Some (CHR 0x08)
      else if e = CHR ''f'' then Some (CHR 0x0C)
      else if e = CHR ''n'' then Some (CHR 0x0A)
      else if e = CHR ''r'' then Some (CHR 0x0D)
      else if e = CHR ''t'' then Some (CHR 0x09)
      else None)"

text \<open>
  \<open>scanString\<close> reads a string literal after its opening quote: the code units it
  denotes and the input after the closing quote. A raw control character ends the parse.
\<close>

fun scanString :: "string \<Rightarrow> (js_string \<times> string) option" where
  "scanString [] = None"
| "scanString (c # cs) =
     (if c = CHR 0x22 then Some ([], cs)
      else if c = CHR 0x5C then
        (case cs of
           [] \<Rightarrow> None
         | e # es \<Rightarrow>
             if e = CHR ''u'' then
               (case hex4 (take 4 es) of
                  None \<Rightarrow> None
                | Some n \<Rightarrow>
                    (case scanString (drop 4 es) of
                       None \<Rightarrow> None
                     | Some (s, rest) \<Rightarrow> Some (of_nat n # s, rest)))
             else
               (case unescape e of
                  None \<Rightarrow> None
                | Some d \<Rightarrow>
                    (case scanString es of
                       None \<Rightarrow> None
                     | Some (s, rest) \<Rightarrow> Some (codeUnit d # s, rest))))
      else if (of_char c :: nat) < 32 then None
      else
        (case scanString cs of
           None \<Rightarrow> None
         | Some (s, rest) \<Rightarrow> Some (codeUnit c # s, rest)))"

text \<open>
  \<open>scanNumber\<close> reads \<^verbatim>\<open>-? (0 | [1-9][0-9]*) (. [0-9]+)? ([eE] [+-]? [0-9]+)?\<close>: the
  lexeme and the input after it.
\<close>

definition scanInt :: "string \<Rightarrow> (string \<times> string) option" where
  "scanInt s =
     (case s of
        [] \<Rightarrow> None
      | c # cs \<Rightarrow>
          if c = CHR ''0'' then Some ([c], cs)
          else if isDigit c then Some (c # takeWhile isDigit cs, dropWhile isDigit cs)
          else None)"

definition scanFrac :: "string \<Rightarrow> (string \<times> string) option" where
  "scanFrac s =
     (case s of
        [] \<Rightarrow> Some ([], [])
      | c # cs \<Rightarrow>
          if c = CHR ''.'' then
            (if takeWhile isDigit cs = [] then None
             else Some (c # takeWhile isDigit cs, dropWhile isDigit cs))
          else Some ([], s))"

definition scanExp :: "string \<Rightarrow> (string \<times> string) option" where
  "scanExp s =
     (case s of
        [] \<Rightarrow> Some ([], [])
      | c # cs \<Rightarrow>
          if c = CHR ''e'' \<or> c = CHR ''E'' then
            (let sign = (case cs of [] \<Rightarrow> [] | d # ds \<Rightarrow> if d = CHR ''+'' \<or> d = CHR ''-'' then [d] else []);
                 ds = drop (length sign) cs
             in if takeWhile isDigit ds = [] then None
                else Some (c # sign @ takeWhile isDigit ds, dropWhile isDigit ds))
          else Some ([], s))"

definition scanNumber :: "string \<Rightarrow> (string \<times> string) option" where
  "scanNumber s =
     (let sign = (case s of [] \<Rightarrow> [] | c # cs \<Rightarrow> if c = CHR ''-'' then [c] else [])
      in case scanInt (drop (length sign) s) of
           None \<Rightarrow> None
         | Some (i, r1) \<Rightarrow>
             (case scanFrac r1 of
                None \<Rightarrow> None
              | Some (f, r2) \<Rightarrow>
                  (case scanExp r2 of
                     None \<Rightarrow> None
                   | Some (e, r3) \<Rightarrow> Some (sign @ i @ f @ e, r3))))"

lemma scanString_shorter: "scanString s = Some (d, r) \<Longrightarrow> length r < length s"
proof (induction s arbitrary: d r rule: scanString.induct)
  case 1
  then show ?case by simp
next
  case (2 c cs)
  show ?case
  proof (cases "c = CHR 0x22")
    case True
    with "2.prems" show ?thesis by simp
  next
    case notq: False
    show ?thesis
    proof (cases "c = CHR 0x5C")
      case True
      then obtain e es where cs: "cs = e # es"
        using "2.prems" notq by (cases cs) auto
      show ?thesis
      proof (cases "e = CHR ''u''")
        case u: True
        from "2.prems" notq True cs u obtain n s' where
          h: "hex4 (take 4 es) = Some n" and sc: "scanString (drop 4 es) = Some (s', r)"
          by (auto split: option.splits)
        from "2.IH"(1)[OF notq True cs u h sc] have "length r < length (drop 4 es)" .
        then show ?thesis using cs by simp
      next
        case nu: False
        from "2.prems" notq True cs nu obtain x s' where
          h: "unescape e = Some x" and sc: "scanString es = Some (s', r)"
          by (auto split: option.splits)
        from "2.IH"(2)[OF notq True cs nu h sc] have "length r < length es" .
        then show ?thesis using cs by simp
      qed
    next
      case nb: False
      from "2.prems" notq nb have ctl: "\<not> (of_char c :: nat) < 32"
        by (auto split: if_splits)
      from "2.prems" notq nb ctl obtain s' where sc: "scanString cs = Some (s', r)"
        by (auto split: option.splits)
      from "2.IH"(3)[OF notq nb ctl sc] show ?thesis by simp
    qed
  qed
qed

lemma scanInt_shorter: "scanInt s = Some (i, r) \<Longrightarrow> length r < length s"
  by (cases s) (auto simp: scanInt_def le_imp_less_Suc length_dropWhile_le split: if_splits)

lemma scanFrac_shorter: "scanFrac s = Some (f, r) \<Longrightarrow> length r \<le> length s"
  by (cases s) (auto simp: scanFrac_def le_SucI length_dropWhile_le split: if_splits)

lemma scanExp_shorter:
  assumes "scanExp s = Some (e, r)"
  shows "length r \<le> length s"
proof (cases s)
  case Nil
  with assms show ?thesis by (simp add: scanExp_def)
next
  case (Cons c cs)
  have "length (dropWhile isDigit (drop k cs)) \<le> Suc (length cs)" for k
    using length_dropWhile_le[of isDigit "drop k cs"] by simp
  with assms Cons show ?thesis
    by (auto simp: scanExp_def Let_def split: if_splits)
qed

lemma scanNumber_shorter: "scanNumber s = Some (l, r) \<Longrightarrow> length r < length s"
proof -
  assume a: "scanNumber s = Some (l, r)"
  define sign where "sign = (case s of [] \<Rightarrow> [] | c # cs \<Rightarrow> if c = CHR ''-'' then [c] else [])"
  from a obtain i r1 f r2 e where
    i: "scanInt (drop (length sign) s) = Some (i, r1)" and
    f: "scanFrac r1 = Some (f, r2)" and
    e: "scanExp r2 = Some (e, r)"
    by (auto simp: scanNumber_def Let_def sign_def split: option.splits)
  from scanInt_shorter[OF i] have "length r1 < length s" by simp
  with scanFrac_shorter[OF f] scanExp_shorter[OF e] show ?thesis by simp
qed

definition consTok :: "token \<Rightarrow> token list option \<Rightarrow> token list option" where
  "consTok t r = (case r of None \<Rightarrow> None | Some ts \<Rightarrow> Some (t # ts))"

lemma consTok_cong [fundef_cong]: "r = r' \<Longrightarrow> consTok t r = consTok t r'"
  by simp

function tokenize :: "string \<Rightarrow> token list option" where
  "tokenize [] = Some []"
| "tokenize (c # cs) =
     (if isJsonSpace c then tokenize cs
      else if c = CHR ''{'' then consTok TLBrace (tokenize cs)
      else if c = CHR ''}'' then consTok TRBrace (tokenize cs)
      else if c = CHR ''['' then consTok TLBrack (tokenize cs)
      else if c = CHR '']'' then consTok TRBrack (tokenize cs)
      else if c = CHR '':'' then consTok TColon (tokenize cs)
      else if c = CHR '','' then consTok TComma (tokenize cs)
      else if c = CHR 0x22 then
        (case scanString cs of
           None \<Rightarrow> None
         | Some (s, rest) \<Rightarrow> consTok (TStr s) (tokenize rest))
      else if c = CHR ''t'' then
        (if take 3 cs = ''rue'' then consTok TTrue (tokenize (drop 3 cs)) else None)
      else if c = CHR ''f'' then
        (if take 4 cs = ''alse'' then consTok TFalse (tokenize (drop 4 cs)) else None)
      else if c = CHR ''n'' then
        (if take 3 cs = ''ull'' then consTok TNull (tokenize (drop 3 cs)) else None)
      else if c = CHR ''-'' \<or> isDigit c then
        (case scanNumber (c # cs) of
           None \<Rightarrow> None
         | Some (l, rest) \<Rightarrow> consTok (TNum l) (tokenize rest))
      else None)"
  by pat_completeness auto
termination
proof (relation "measure length", goal_cases)
  case 1
  show ?case by simp
next
  case (9 c cs x2 x y)
  then show ?case using scanString_shorter[of cs x y] by simp
next
  case (13 c cs x2 x y)
  then show ?case using scanNumber_shorter[of "c # cs" x y] by simp
qed simp_all

text \<open>
  The recogniser keeps a stack of the containers that are still open: an array with the
  elements read so far, an object with its members, or an object whose next member has
  its key but not yet its value (the newest element or member first).
\<close>

datatype frame =
    FArr "json list"
  | FObj "(js_string \<times> json) list"
  | FKey "(js_string \<times> json) list" js_string

datatype pstate =
    PValue | PArrFirst | PArrNext | PObjFirst | PObjKey | PColon | PObjNext | PDone json

fun deliver :: "json \<Rightarrow> frame list \<Rightarrow> (frame list \<times> pstate) option" where
  "deliver v [] = Some ([], PDone v)"
| "deliver v (FArr xs # st) = Some (FArr (v # xs) # st, PArrNext)"
| "deliver v (FKey ms k # st) = Some (FObj ((k, v) # ms) # st, PObjNext)"
| "deliver v (FObj ms # st) = None"

fun closeArr :: "frame list \<Rightarrow> (frame list \<times> pstate) option" where
  "closeArr (FArr xs # st) = deliver (JArr (rev xs)) st"
| "closeArr _ = None"

fun closeObj :: "frame list \<Rightarrow> (frame list \<times> pstate) option" where
  "closeObj (FObj ms # st) = deliver (JObj (rev ms)) st"
| "closeObj _ = None"

fun openKey :: "js_string \<Rightarrow> frame list \<Rightarrow> (frame list \<times> pstate) option" where
  "openKey k (FObj ms # st) = Some (FKey ms k # st, PColon)"
| "openKey k _ = None"

fun startValue :: "token \<Rightarrow> frame list \<Rightarrow> (frame list \<times> pstate) option" where
  "startValue (TStr s) st = deliver (JStr s) st"
| "startValue (TNum l) st = deliver (JNum l) st"
| "startValue TTrue st = deliver (JBool True) st"
| "startValue TFalse st = deliver (JBool False) st"
| "startValue TNull st = deliver JNull st"
| "startValue TLBrack st = Some (FArr [] # st, PArrFirst)"
| "startValue TLBrace st = Some (FObj [] # st, PObjFirst)"
| "startValue _ st = None"

fun step :: "pstate \<Rightarrow> token \<Rightarrow> frame list \<Rightarrow> (frame list \<times> pstate) option" where
  "step PValue t st = startValue t st"
| "step PArrFirst t st = (if t = TRBrack then closeArr st else startValue t st)"
| "step PArrNext t st =
     (if t = TComma then Some (st, PValue) else if t = TRBrack then closeArr st else None)"
| "step PObjFirst t st =
     (case t of TRBrace \<Rightarrow> closeObj st | TStr k \<Rightarrow> openKey k st | _ \<Rightarrow> None)"
| "step PObjKey t st = (case t of TStr k \<Rightarrow> openKey k st | _ \<Rightarrow> None)"
| "step PColon t st = (if t = TColon then Some (st, PValue) else None)"
| "step PObjNext t st =
     (if t = TComma then Some (st, PObjKey) else if t = TRBrace then closeObj st else None)"
| "step (PDone v) t st = None"

fun parseTokens :: "pstate \<Rightarrow> frame list \<Rightarrow> token list \<Rightarrow> json option" where
  "parseTokens p st [] = (case p of PDone v \<Rightarrow> Some v | _ \<Rightarrow> None)"
| "parseTokens p st (t # ts) =
     (case step p t st of None \<Rightarrow> None | Some (st', p') \<Rightarrow> parseTokens p' st' ts)"

text \<open>\<^verbatim>\<open>JSON.parse(text)\<close>: \<open>None\<close> where the platform throws a SyntaxError.\<close>

definition JSON_parse :: "string \<Rightarrow> json option" where
  "JSON_parse s = (case tokenize s of None \<Rightarrow> None | Some ts \<Rightarrow> parseTokens PValue [] ts)"

text \<open>
  The value of a number lexeme is \<open>m * 10 ^ k\<close>, up to its sign: \<open>m\<close> is the number
  written by the digits of the integer part followed by those of the fraction, and \<open>k\<close>
  is the exponent less the number of fraction digits.
\<close>

definition digitsValue :: "string \<Rightarrow> nat" where
  "digitsValue ds = foldl (\<lambda>n c. 10 * n + (of_char c - 48)) 0 ds"

definition mantissa :: "string \<Rightarrow> nat" where
  "mantissa l =
     (let body = (case l of [] \<Rightarrow> [] | c # cs \<Rightarrow> if c = CHR ''-'' then cs else l);
          r1 = dropWhile isDigit body;
          fp = (case r1 of [] \<Rightarrow> [] | c # cs \<Rightarrow> if c = CHR ''.'' then takeWhile isDigit cs else [])
      in digitsValue (takeWhile isDigit body @ fp))"

definition exponent :: "string \<Rightarrow> int" where
  "exponent l =
     (let body = (case l of [] \<Rightarrow> [] | c # cs \<Rightarrow> if c = CHR ''-'' then cs else l);
          r1 = dropWhile isDigit body;
          fp = (case r1 of [] \<Rightarrow> [] | c # cs \<Rightarrow> if c = CHR ''.'' then takeWhile isDigit cs else []);
          r2 = (case r1 of [] \<Rightarrow> [] | c # cs \<Rightarrow> if c = CHR ''.'' then dropWhile isDigit cs else r1);
          ex = (case r2 of
                  [] \<Rightarrow> 0
                | e # es \<Rightarrow>
                    (case es of
                       [] \<Rightarrow> 0
                     | d # ds \<Rightarrow>
                         if d = CHR ''-'' then - int (digitsValue ds)
                         else if d = CHR ''+'' then int (digitsValue ds)
                         else int (digitsValue es)))
      in ex - int (length fp))"

text \<open>
  JavaScript truthiness of a parsed value: \<^verbatim>\<open>null\<close>, \<^verbatim>\<open>false\<close>, zero and the empty
  string are falsy, every object and array is truthy. A number literal is read as the
  nearest binary64 value, ties to even (the engines convert the decimal exactly): it is
  zero exactly when its absolute value is at most \<open>2 ^ -1075\<close>, half of the least
  positive binary64 value (so \<^verbatim>\<open>0.0\<close>, \<^verbatim>\<open>-0\<close> and \<^verbatim>\<open>1e-400\<close> are falsy, and a literal
  too large for binary64 is \<^verbatim>\<open>Infinity\<close>, which is truthy). \<open>None\<close> stands for
  \<^verbatim>\<open>undefined\<close>.
\<close>

definition numberNonZero :: "string \<Rightarrow> bool" where
  "numberNonZero l =
     (if 0 \<le> exponent l then 0 < mantissa l
      else 10 ^ nat (- exponent l) < mantissa l * 2 ^ 1075)"

fun truthy :: "json \<Rightarrow> bool" where
  "truthy JNull = False"
| "truthy (JBool b) = b"
| "truthy (JNum l) = numberNonZero l"
| "truthy (JStr s) = (s \<noteq> [])"
| "truthy (JArr xs) = True"
| "truthy (JObj ms) = True"

definition truthyOpt :: "json option \<Rightarrow> bool" where
  "truthyOpt v = (case v of None \<Rightarrow> False | Some x \<Rightarrow> truthy x)"

text \<open>
  Reading a property of a value that is neither \<^verbatim>\<open>null\<close> nor \<^verbatim>\<open>undefined\<close>. It is
  used with the keys \<open>message\<close>, \<open>content\<close>, \<open>done\<close> and \<open>model\<close>, which no prototype
  defines, so a primitive or an array has none of them. In an object a repeated key keeps
  its last value.
\<close>

fun getProp :: "string \<Rightarrow> json \<Rightarrow> json option" where
  "getProp k (JObj ms) = map_of (rev ms) (jsString k)"
| "getProp k _ = None"

text \<open>
  \<^verbatim>\<open>JSON.stringify\<close> of a string (QuoteJSONString), and of the object
  \<^verbatim>\<open>{ response: content }\<close> for a string \<open>content\<close>.
\<close>

definition hexDigit :: "nat \<Rightarrow> char" where
  "hexDigit n = (if n < 10 then char_of (48 + n) else char_of (87 + n))"

definition escapeChar :: "char \<Rightarrow> string" where
  "escapeChar c =
     (if c = CHR 0x08 then [CHR 0x5C, CHR ''b'']
      else if c = CHR 0x09 then [CHR 0x5C, CHR ''t'']
      else if c = CHR 0x0A then [CHR 0x5C, CHR ''n'']
      else if c = CHR 0x0C then [CHR 0x5C, CHR ''f'']
      else if c = CHR 0x0D then [CHR 0x5C, CHR ''r'']
      else if c = CHR 0x22 then [CHR 0x5C, CHR 0x22]
      else if c = CHR 0x5C then [CHR 0x5C, CHR 0x5C]
      else if (of_char c :: nat) < 32 then
        [CHR 0x5C, CHR ''u'', CHR ''0'', CHR ''0'',
         hexDigit (of_char c div 16), hexDigit (of_char c mod 16)]
      else [c])"

definition quoteJSONString :: "string \<Rightarrow> string" where
  "quoteJSONString s = CHR 0x22 # concat (map escapeChar s) @ [CHR 0x22]"

definition stringifyResponse :: "string \<Rightarrow> string" where
  "stringifyResponse content = ''{'' @ quoteJSONString ''response'' @ '':'' @ quoteJSONString content @ ''}''"


section \<open>Model directory (config.ts, services/model-service.ts)\<close>

definition REMOTE_MODELS :: "string list" where
  "REMOTE_MODELS = [''gpt-oss:120b'', ''gpt-oss:20b'']"

definition isRemoteModel :: "string \<Rightarrow> bool" where
  "isRemoteModel modelName = (modelName \<in> set REMOTE_MODELS)"

record ollama_model =
  model_name :: string
  modified_at :: "string option"
  digest :: "string option"

text \<open>
  What a backend answers to \<^verbatim>\<open>/api/tags\<close>. \<open>TagsUnavailable\<close> covers every way
  \<^verbatim>\<open>getLocalTags\<close> or \<^verbatim>\<open>getRemoteTags\<close> throws (connection failure, a status that is
  not 2xx, a body that is not JSON); \<open>TagsBody None\<close> is a body without \<open>models\<close>.
\<close>

datatype tags_reply = TagsUnavailable | TagsBody "ollama_model list option"

definition modelsOrEmpty :: "tags_reply \<Rightarrow> ollama_model list" where
  "modelsOrEmpty r =
     (case r of
        TagsUnavailable \<Rightarrow> []
      | TagsBody ms \<Rightarrow> (case ms of None \<Rightarrow> [] | Some l \<Rightarrow> l))"

definition getLocalModels :: "tags_reply \<Rightarrow> ollama_model list" where
  "getLocalModels localTags = modelsOrEmpty localTags"

definition getRemoteModels :: "tags_reply \<Rightarrow> ollama_model list" where
  "getRemoteModels remoteTags =
     filter (\<lambda>model. model_name model \<in> set REMOTE_MODELS) (modelsOrEmpty remoteTags)"

text \<open>
  \<^verbatim>\<open>
  const seen = new Set<string>(); const uniqueModels = [];
  const localModels = models.filter(model => !this.isRemoteModel(model.name));
  const remoteModels = models.filter(model => this.isRemoteModel(model.name));
  for (const model of [...localModels, ...remoteModels])
    if (!seen.has(model.name)) { seen.add(model.name); uniqueModels.push(model); }
  \<close>
\<close>

fun dedupLoop :: "string set \<Rightarrow> ollama_model list \<Rightarrow> ollama_model list \<Rightarrow> ollama_model list" where
  "dedupLoop seen uniqueModels [] = uniqueModels"
| "dedupLoop seen uniqueModels (model # rest) =
     (if model_name model \<notin> seen
      then dedupLoop (insert (model_name model) seen) (uniqueModels @ [model]) rest
      else dedupLoop seen uniqueModels rest)"

definition deduplicateModels :: "ollama_model list \<Rightarrow> ollama_model list" where
  "deduplicateModels models =
     (let localModels = filter (\<lambda>model. \<not> isRemoteModel (model_name model)) models;
          remoteModels = filter (\<lambda>model. isRemoteModel (model_name model)) models
      in dedupLoop {} [] (localModels @ remoteModels))"

definition getUnifiedModels :: "tags_reply \<Rightarrow> tags_reply \<Rightarrow> ollama_model list" where
  "getUnifiedModels localTags remoteTags =
     deduplicateModels (getLocalModels localTags @ getRemoteModels remoteTags)"

text \<open>The ids that \<^verbatim>\<open>getOpenAIModels\<close> lists: one per unified model, its name.\<close>

definition availableModelIds :: "tags_reply \<Rightarrow> tags_reply \<Rightarrow> string list" where
  "availableModelIds localTags remoteTags = map model_name (getUnifiedModels localTags remoteTags)"

text \<open>
  Deduplication by name as the specification words it: of each name the first entry is
  kept, the later ones are dropped, and the kept entries stay in their order.
\<close>

fun keepFirstByName :: "ollama_model list \<Rightarrow> ollama_model list" where
  "keepFirstByName [] = []"
| "keepFirstByName (m # ms) =
     m # keepFirstByName (filter (\<lambda>x. model_name x \<noteq> model_name m) ms)"

section \<open>Routing of the native surface (ollama-utils.ts, unified-server.ts)\<close>

record http_request =
  req_method :: string
  req_pathname :: string
  req_body :: string

definition startsWith :: "string \<Rightarrow> string \<Rightarrow> bool" where
  "startsWith pre s = (take (length pre) s = pre)"

text \<open>
  \<^verbatim>\<open>
  if (!['POST', 'DELETE'].includes(req.method)) return null;
  try { const body = await req.json(); return body.model || null; } catch { return null; }
  \<close>
  Reading \<open>model\<close> off a \<^verbatim>\<open>null\<close> body throws inside the \<^verbatim>\<open>try\<close>.
\<close>

definition extractModelFromRequest :: "http_request \<Rightarrow> json option" where
  "extractModelFromRequest req =
     (if req_method req \<notin> set [''POST'', ''DELETE''] then None
      else case JSON_parse (req_body req) of
             None \<Rightarrow> None
           | Some body \<Rightarrow>
               if body = JNull then None
               else (case getProp ''model'' body of
                       None \<Rightarrow> None
                     | Some m \<Rightarrow> if truthy m then Some m else None))"

text \<open>
  \<^verbatim>\<open>REMOTE_MODELS.includes(model)\<close> on whatever value the body carried: only a string
  equals a string, and it does when the code units are the same.
\<close>

definition isRemoteModelValue :: "json \<Rightarrow> bool" where
  "isRemoteModelValue model =
     (case model of JStr name \<Rightarrow> name \<in> set (map jsString REMOTE_MODELS) | _ \<Rightarrow> False)"

text \<open>
  \<^verbatim>\<open>pathname.match(/^\/api\/blobs\/(.+)$/)\<close>: the dot matches no line terminator.
\<close>

definition extractDigestFromPath :: "string \<Rightarrow> string option" where
  "extractDigestFromPath pathname =
     (let rest = drop 11 pathname
      in if startsWith ''/api/blobs/'' pathname \<and> rest \<noteq> []
            \<and> CHR 0x0A \<notin> set rest \<and> CHR 0x0D \<notin> set rest
         then Some rest else None)"

datatype backend = Local | Remote

datatype route_action =
    CorsPreflight
  | ChatCompletions | Models | CompletionsDeprecated | Embeddings | OpenAIRoot | OpenAINotFound
  | UnifiedTags | MergedPs | OllamaVersion | InvalidBlobDigest
  | Forward backend
  | ServerRoot | NotFound

text \<open>
  The decision of \<^verbatim>\<open>serve.fetch\<close>: which handler answers, or to which backend the request
  is forwarded (\<^verbatim>\<open>forwardOllamaRequest(req, OLLAMA_HOST, true)\<close> is \<open>Forward Remote\<close>,
  \<^verbatim>\<open>forwardOllamaRequest(req, LOCAL_OLLAMA_HOST, false)\<close> is \<open>Forward Local\<close>).
\<close>

definition fetch :: "http_request \<Rightarrow> route_action" where
  "fetch req =
     (let pathname = req_pathname req; method = req_method req in
      if method = ''OPTIONS'' then CorsPreflight
      else if startsWith ''/v1/'' pathname then
        (if pathname = ''/v1/chat/completions'' \<and> method = ''POST'' then ChatCompletions
         else if pathname = ''/v1/models'' \<and> method = ''GET'' then Models
         else if pathname = ''/v1/completions'' \<and> method = ''POST'' then CompletionsDeprecated
         else if pathname = ''/v1/embeddings'' \<and> method = ''POST'' then Embeddings
         else if pathname = ''/v1/'' \<and> method = ''GET'' then OpenAIRoot
         else OpenAINotFound)
      else if startsWith ''/api/'' pathname then
        (if pathname = ''/api/tags'' \<and> method = ''GET'' then UnifiedTags
         else if pathname = ''/api/ps'' \<and> method = ''GET'' then MergedPs
         else if pathname = ''/api/version'' \<and> method = ''GET'' then OllamaVersion
         else if startsWith ''/api/blobs/'' pathname \<and> method \<in> set [''HEAD'', ''POST''] then
           (case extractDigestFromPath pathname of
              Some d \<Rightarrow> Forward Local
            | None \<Rightarrow> InvalidBlobDigest)
         else if method \<in> set [''POST'']
              \<and> pathname \<in> set [''/api/generate'', ''/api/chat'', ''/api/embed'',
                                 ''/api/embeddings'', ''/api/show''] then
           (case extractModelFromRequest req of
              Some model \<Rightarrow> if isRemoteModelValue model then Forward Remote else Forward Local
            | None \<Rightarrow> Forward Local)
         else if method \<in> set [''POST'', ''DELETE'']
              \<and> pathname \<in> set [''/api/pull'', ''/api/push'', ''/api/create'',
                                 ''/api/delete'', ''/api/copy''] then Forward Local
         else Forward Local)
      else if pathname = ''/'' \<and> method = ''GET'' then ServerRoot
      else NotFound)"

section \<open>Responses and the error envelope (errors.ts)\<close>

text \<open>Decimal rendering of a number in a template string (\<^verbatim>\<open>`${i}`\<close>).\<close>

function showNat :: "nat \<Rightarrow> string" where
  "showNat n = (if n < 10 then [char_of (48 + n)] else showNat (n div 10) @ [char_of (48 + n mod 10)])"
  by pat_completeness auto
termination
  by (relation "measure id") auto

record error_body =
  err_message :: string
  err_type :: string
  err_param :: "string option"

record assistant_message =
  am_role :: string
  am_content :: string

record openai_choice =
  ch_index :: nat
  ch_message :: assistant_message
  ch_finish_reason :: "string option"

record openai_usage =
  prompt_tokens :: nat
  completion_tokens :: nat
  total_tokens :: nat

text \<open>
  The non-streaming envelope. Its \<open>id\<close> (random) and \<open>created\<close> (the clock) are left
  out: nothing reads them back.
\<close>

record openai_chat_response =
  cr_object :: string
  cr_model :: string
  cr_system_fingerprint :: string
  cr_choices :: "openai_choice list"
  cr_usage :: openai_usage

text \<open>
  One item enqueued on the event stream: a chunk
  \<^verbatim>\<open>data: {"id":..,"object":"chat.completion.chunk",..,"choices":[{"index":0,"delta":..,"finish_reason":..}]}\<close>
  or the sentinel \<^verbatim>\<open>data: [DONE]\<close>. Every chunk of a stream has the same \<open>id\<close>,
  \<open>created\<close>, \<open>model\<close> and \<open>system_fingerprint\<close>; a chunk is modelled by what varies,
  its delta and its finish reason. A content delta carries the value the upstream frame
  had under \<open>message.content\<close>.
\<close>

datatype delta = DeltaRole string | DeltaContent json | DeltaEmpty

datatype emission = Chunk delta "string option" | Sentinel

datatype response =
    ErrorResponse nat error_body
  | ChatCompletion openai_chat_response
  | EventStream "emission list"

text \<open>
  \<^verbatim>\<open>createErrorResponse(message, type, status, param)\<close>; \<^verbatim>\<open>...(param && { param })\<close>
  leaves an empty \<open>param\<close> out. No caller modelled here passes a \<open>code\<close>.
\<close>

definition createErrorResponse :: "string \<Rightarrow> string \<Rightarrow> nat \<Rightarrow> string option \<Rightarrow> response" where
  "createErrorResponse message type status param =
     ErrorResponse status
       \<lparr>err_message = message, err_type = type,
        err_param = (case param of None \<Rightarrow> None | Some p \<Rightarrow> if p = [] then None else Some p)\<rparr>"

text \<open>\<^verbatim>\<open>(error as Error).message || fallback\<close>\<close>

definition orElse :: "string \<Rightarrow> string \<Rightarrow> string" where
  "orElse message fallback = (if message = [] then fallback else message)"

section \<open>Request validation (auth.ts, validation.ts)\<close>

datatype stop_value = StopString string | StopArray "string list"

record openai_tool =
  tool_name :: string

record response_format =
  rf_type :: string

text \<open>
  The parsed request body. \<open>None\<close> is a field that is absent; for \<open>req_messages\<close> it
  also stands for any value that is not an array, which the validator treats alike.
\<close>

record openai_chat_request =
  req_model :: "string option"
  req_messages :: "openai_message list option"
  req_stream :: "bool option"
  req_temperature :: "real option"
  req_max_tokens :: "real option"
  req_top_p :: "real option"
  req_frequency_penalty :: "real option"
  req_presence_penalty :: "real option"
  req_stop :: "stop_value option"
  req_n :: "real option"
  req_tools :: "openai_tool list option"
  req_response_format :: "response_format option"

definition validateAuth :: "string option \<Rightarrow> response option" where
  "validateAuth authHeader =
     (case authHeader of
        None \<Rightarrow> None
      | Some h \<Rightarrow>
          if h = [] then None
          else if \<not> startsWith ''Bearer '' h then
            Some (createErrorResponse
              ''Incorrect API key provided. You can find your API key at https://platform.openai.com/account/api-keys.''
              ''invalid_request_error'' 401 None)
          else if length (drop 7 h) = 0 then
            Some (createErrorResponse
              ''Incorrect API key provided. You can find your API key at https://platform.openai.com/account/api-keys.''
              ''invalid_request_error'' 401 None)
          else None)"

definition validateModel :: "string \<Rightarrow> string list \<Rightarrow> bool" where
  "validateModel model availableModels = (model \<in> set availableModels)"

definition isTruthyContent :: "message_content \<Rightarrow> bool" where
  "isTruthyContent c =
     (case c of ContentString s \<Rightarrow> s \<noteq> [] | ContentArray arr \<Rightarrow> True | ContentAbsent \<Rightarrow> False)"

definition validateMessage :: "nat \<Rightarrow> openai_message \<Rightarrow> response option" where
  "validateMessage i message =
     (let role = (case msg_role message of None \<Rightarrow> [] | Some r \<Rightarrow> r) in
      if role = [] then
        Some (createErrorResponse
          (''Missing required parameter: messages['' @ showNat i @ ''].role'')
          ''invalid_request_error'' 400 (Some (''messages['' @ showNat i @ ''].role'')))
      else if role \<notin> set [''system'', ''user'', ''assistant'', ''tool''] then
        Some (createErrorResponse
          (''Invalid value for messages['' @ showNat i @ ''].role: '' @ role)
          ''invalid_request_error'' 400 (Some (''messages['' @ showNat i @ ''].role'')))
      else if role = ''tool''
              \<and> (case msg_tool_call_id message of None \<Rightarrow> True | Some t \<Rightarrow> t = []) then
        Some (createErrorResponse
          (''Missing required parameter: messages['' @ showNat i @ ''].tool_call_id'')
          ''invalid_request_error'' 400 (Some (''messages['' @ showNat i @ ''].tool_call_id'')))
      else if isTruthyContent (msg_content message)
              \<and> length (convertContentToString (msg_content message)) > 200000 then
        Some (createErrorResponse
          ''Message content too large (max 200000 characters)''
          ''invalid_request_error'' 400 (Some (''messages['' @ showNat i @ ''].content'')))
      else None)"

fun validateMessages :: "nat \<Rightarrow> openai_message list \<Rightarrow> response option" where
  "validateMessages i [] = None"
| "validateMessages i (message # rest) =
     (case validateMessage i message of
        Some e \<Rightarrow> Some e
      | None \<Rightarrow> validateMessages (Suc i) rest)"

definition validateRequest :: "openai_chat_request \<Rightarrow> response option" where
  "validateRequest body =
     (if (case req_model body of None \<Rightarrow> True | Some m \<Rightarrow> m = []) then
        Some (createErrorResponse ''Missing required parameter: model''
                ''invalid_request_error'' 400 (Some ''model''))
      else case req_messages body of
             None \<Rightarrow>
               Some (createErrorResponse ''Missing required parameter: messages''
                       ''invalid_request_error'' 400 (Some ''messages''))
           | Some messages \<Rightarrow>
               if length messages = 0 then
                 Some (createErrorResponse ''Missing required parameter: messages''
                         ''invalid_request_error'' 400 (Some ''messages''))
               else validateMessages 0 messages)"

definition validateParameters :: "openai_chat_request \<Rightarrow> response option" where
  "validateParameters body =
     (if (case req_temperature body of None \<Rightarrow> False | Some t \<Rightarrow> t < 0 \<or> t > 2) then
        Some (createErrorResponse ''Temperature must be between 0 and 2''
                ''invalid_request_error'' 400 (Some ''temperature''))
      else if (case req_top_p body of None \<Rightarrow> False | Some t \<Rightarrow> t < 0 \<or> t > 1) then
        Some (createErrorResponse ''Top_p must be between 0 and 1''
                ''invalid_request_error'' 400 (Some ''top_p''))
      else if (case req_max_tokens body of None \<Rightarrow> False | Some t \<Rightarrow> t < 1) then
        Some (createErrorResponse ''Max_tokens must be greater than 0''
                ''invalid_request_error'' 400 (Some ''max_tokens''))
      else if (case req_n body of None \<Rightarrow> False | Some n \<Rightarrow> n \<noteq> 1) then
        Some (createErrorResponse ''Only n=1 is supported''
                ''invalid_request_error'' 400 (Some ''n''))
      else None)"

section \<open>The backend call (clients/ollama-client.ts)\<close>

record ollama_options =
  opt_temperature :: "real option"
  opt_num_predict :: "real option"
  opt_top_p :: "real option"
  opt_frequency_penalty :: "real option"
  opt_presence_penalty :: "real option"
  opt_stop :: "string list option"

record ollama_chat_request =
  oreq_model :: string
  oreq_messages :: "ollama_chat_message list"
  oreq_stream :: bool
  oreq_options :: "ollama_options option"
  oreq_format :: "string option"

text \<open>
  The backend's JSON reply to a non-streaming call, at the fields the handler reads and
  with the types the backend's API gives them; a field may be missing.
\<close>

record ollama_response_message =
  rmsg_content :: "string option"

record ollama_chat_response =
  resp_message :: "ollama_response_message option"
  resp_prompt_eval_count :: "nat option"
  resp_eval_count :: "nat option"

text \<open>
  One \<^verbatim>\<open>await ollamaReader.read()\<close> of the upstream body: a piece of text (the bytes,
  decoded; text over the code points below 256, as everywhere), or a rejection with its
  message. The end of the list is the read that reports \<^verbatim>\<open>done\<close>.
\<close>

datatype read_event = Bytes string | ReadThrows string

text \<open>
  The backend's reply: its status, what \<^verbatim>\<open>response.text()\<close> does (\<open>Some m\<close>: it rejects
  with message \<open>m\<close>), what \<^verbatim>\<open>response.json()\<close> gives (\<open>Inl m\<close>: it rejects with \<open>m\<close>), and
  \<^verbatim>\<open>response.body\<close> as the reads it will serve (\<open>None\<close>: no body).
\<close>

record http_reply =
  reply_status :: nat
  reply_statusText :: string
  reply_text_error :: "string option"
  reply_json :: "string + ollama_chat_response"
  reply_body :: "read_event list option"

datatype fetch_result = FetchFails string | FetchReply http_reply

definition reply_ok :: "http_reply \<Rightarrow> bool" where
  "reply_ok r = (200 \<le> reply_status r \<and> reply_status r \<le> 299)"

text \<open>
  The world around one request. The two backends answer a chat call; the consumer of an
  event stream may go away: \<open>cancelAfter = Some k\<close> lets the first \<open>k\<close> calls of
  \<^verbatim>\<open>controller.enqueue\<close> succeed and makes every later one throw, \<open>None\<close> is a consumer
  that stays. \<open>OLLAMA_STREAM\<close> is the configuration flag that chat.ts imports from
  config.ts. File logging is taken not to fail.
\<close>

record environment =
  OLLAMA_STREAM :: bool
  local_tags :: tags_reply
  remote_tags :: tags_reply
  local_chat :: "ollama_chat_request \<Rightarrow> fetch_result"
  remote_chat :: "ollama_chat_request \<Rightarrow> fetch_result"
  cancelAfter :: "nat option"

text \<open>
  \<^verbatim>\<open>chatCompletion(model, messages, options)\<close> posts \<^verbatim>\<open>{model, messages, ...options}\<close>;
  both callers pass the whole request as \<open>options\<close>, so the posted body is the request.
  \<open>Inl\<close> is the error that \<^verbatim>\<open>fetchLocal\<close> or \<^verbatim>\<open>fetchRemote\<close> throws when the connection
  fails. The remote credential is taken to be configured: the server does not start
  without it.
\<close>

definition chatCompletion :: "environment \<Rightarrow> string \<Rightarrow> ollama_chat_request \<Rightarrow> string + http_reply" where
  "chatCompletion env model requestBody =
     (if model \<in> set [''gpt-oss:120b'', ''gpt-oss:20b'']
      then (case remote_chat env requestBody of
              FetchFails m \<Rightarrow> Inl (''Remote Ollama connection failed: '' @ m)
            | FetchReply r \<Rightarrow> Inr r)
      else (case local_chat env requestBody of
              FetchFails m \<Rightarrow> Inl (''Local Ollama connection failed: '' @ m)
            | FetchReply r \<Rightarrow> Inr r))"

section \<open>Non-streaming completion (chat.ts, handleNonStreamingChat)\<close>

definition isJsonObjectFormat :: "openai_chat_request \<Rightarrow> bool" where
  "isJsonObjectFormat originalRequest =
     (case req_response_format originalRequest of
        None \<Rightarrow> False
      | Some f \<Rightarrow> rf_type f = ''json_object'')"

definition internalError :: "string \<Rightarrow> response" where
  "internalError message =
     createErrorResponse (orElse message ''Internal server error'') ''internal_server_error'' 500 None"

text \<open>
  \<^verbatim>\<open>
  let content = ollamaResponse.message?.content || '';
  if (originalRequest.response_format?.type === 'json_object') {
    try { JSON.parse(content); } catch { content = JSON.stringify({ response: content }); }
  }
  if (!content && !originalRequest.tools) content = 'Response received from model.';
  \<close>
\<close>

definition backendContent :: "ollama_chat_response \<Rightarrow> string" where
  "backendContent ollamaResponse =
     (case resp_message ollamaResponse of
        None \<Rightarrow> []
      | Some m \<Rightarrow> (case rmsg_content m of None \<Rightarrow> [] | Some c \<Rightarrow> c))"

definition normalizeContent :: "openai_chat_request \<Rightarrow> ollama_chat_response \<Rightarrow> string" where
  "normalizeContent originalRequest ollamaResponse =
     (let content0 = backendContent ollamaResponse;
          content1 =
            (if isJsonObjectFormat originalRequest
             then (case JSON_parse content0 of
                     Some v \<Rightarrow> content0
                   | None \<Rightarrow> stringifyResponse content0)
             else content0)
      in if content1 = [] \<and> req_tools originalRequest = None
         then ''Response received from model.''
         else content1)"

definition countOrZero :: "nat option \<Rightarrow> nat" where
  "countOrZero c = (case c of None \<Rightarrow> 0 | Some n \<Rightarrow> n)"

definition handleNonStreamingChat ::
  "environment \<Rightarrow> ollama_chat_request \<Rightarrow> string \<Rightarrow> openai_chat_request \<Rightarrow> response" where
  "handleNonStreamingChat env ollamaRequest model originalRequest =
     (case chatCompletion env model ollamaRequest of
        Inl m \<Rightarrow> internalError m
      | Inr r \<Rightarrow>
          if \<not> reply_ok r then
            (case reply_text_error r of
               Some m \<Rightarrow> internalError m
             | None \<Rightarrow>
                 internalError (''Ollama request failed: '' @ showNat (reply_status r)
                                @ '' '' @ reply_statusText r))
          else
            (case reply_json r of
               Inl m \<Rightarrow> internalError m
             | Inr ollamaResponse \<Rightarrow>
                 ChatCompletion
                   \<lparr>cr_object = ''chat.completion'',
                    cr_model = model,
                    cr_system_fingerprint = ''fp_ollama_proxy'',
                    cr_choices =
                      [\<lparr>ch_index = 0,
                        ch_message = \<lparr>am_role = ''assistant'',
                                      am_content = normalizeContent originalRequest ollamaResponse\<rparr>,
                        ch_finish_reason = Some ''stop''\<rparr>],
                    cr_usage =
                      \<lparr>prompt_tokens = countOrZero (resp_prompt_eval_count ollamaResponse),
                       completion_tokens = countOrZero (resp_eval_count ollamaResponse),
                       total_tokens = countOrZero (resp_prompt_eval_count ollamaResponse)
                                      + countOrZero (resp_eval_count ollamaResponse)\<rparr>\<rparr>))"

section \<open>Streaming completion (chat.ts, handleStreamingChat)\<close>

text \<open>\<^verbatim>\<open>String.prototype.trim\<close> and \<^verbatim>\<open>split('\n')\<close>.\<close>

definition isJsWhitespace :: "char \<Rightarrow> bool" where
  "isJsWhitespace c =
     (c = CHR 0x09 \<or> c = CHR 0x0A \<or> c = CHR 0x0B \<or> c = CHR 0x0C \<or> c = CHR 0x0D
      \<or> c = CHR 0x20 \<or> c = CHR 0xA0)"

definition trim :: "string \<Rightarrow> string" where
  "trim s = rev (dropWhile isJsWhitespace (rev (dropWhile isJsWhitespace s)))"

fun splitNL :: "string \<Rightarrow> string list" where
  "splitNL [] = [[]]"
| "splitNL (c # cs) =
     (if c = CHR 0x0A then [] # splitNL cs
      else (case splitNL cs of
              [] \<Rightarrow> [[c]]
            | l # ls \<Rightarrow> (c # l) # ls))"

text \<open>
  What the pipeline reads off one upstream line:
  \<^verbatim>\<open>const ollamaData = JSON.parse(line); ollamaData.message?.content; ollamaData.done\<close>.
  \<open>None\<close> is the \<^verbatim>\<open>catch\<close> branch: the line is not JSON, or it is \<^verbatim>\<open>null\<close>, whose
  \<open>message\<close> cannot be read. \<open>frame_content\<close> is the content when it is truthy.
\<close>

record frame_data =
  frame_content :: "json option"
  frame_done :: bool

definition readFrame :: "string \<Rightarrow> frame_data option" where
  "readFrame line =
     (case JSON_parse line of
        None \<Rightarrow> None
      | Some ollamaData \<Rightarrow>
          if ollamaData = JNull then None
          else
            let content =
                  (case getProp ''message'' ollamaData of
                     None \<Rightarrow> None
                   | Some message \<Rightarrow> if message = JNull then None else getProp ''content'' message)
            in Some \<lparr>frame_content = (if truthyOpt content then content else None),
                     frame_done = truthyOpt (getProp ''done'' ollamaData)\<rparr>)"

text \<open>
  The mutable variables of the \<^verbatim>\<open>start(controller)\<close> closure. \<open>enqueued\<close> is what the
  controller has accepted so far, in order. \<open>chunkCounter\<close> and \<open>streamingContent\<close>
  only feed the log and are left out.
\<close>

record stream_state =
  enqueued :: "emission list"
  controllerClosed :: bool
  hasFinished :: bool
  hasContentBeenSent :: bool
  buffer :: string

definition canEnqueue :: "environment \<Rightarrow> stream_state \<Rightarrow> bool" where
  "canEnqueue env st =
     (case cancelAfter env of None \<Rightarrow> True | Some k \<Rightarrow> length (enqueued st) < k)"

definition assistantRoleChunk :: emission where
  "assistantRoleChunk = Chunk (DeltaRole ''assistant'') None"

definition finalChunk :: emission where
  "finalChunk = Chunk DeltaEmpty (Some ''stop'')"

definition contentChunk :: "json \<Rightarrow> emission" where
  "contentChunk c = Chunk (DeltaContent c) None"

text \<open>
  \<^verbatim>\<open>
  const writeChunk = (data) => {
    try { if (controllerClosed) return; ... controller.enqueue(encoder.encode(chunk)); }
    catch (error) { controllerClosed = true; }
  };
  \<close>
\<close>

definition writeChunk :: "environment \<Rightarrow> emission \<Rightarrow> stream_state \<Rightarrow> stream_state" where
  "writeChunk env data st =
     (if controllerClosed st then st
      else if canEnqueue env st then st\<lparr>enqueued := enqueued st @ [data]\<rparr>
      else st\<lparr>controllerClosed := True\<rparr>)"

text \<open>
  \<^verbatim>\<open>
  const safeClose = () => {
    try { if (!controllerClosed) {
        controller.enqueue(encoder.encode('data: [DONE]\n\n'));
        controller.close(); controllerClosed = true; ... } }
    catch (error) { controllerClosed = true; }
  };
  \<close>
\<close>

definition safeClose :: "environment \<Rightarrow> stream_state \<Rightarrow> stream_state" where
  "safeClose env st =
     (if \<not> controllerClosed st then
        (if canEnqueue env st
         then st\<lparr>enqueued := enqueued st @ [Sentinel], controllerClosed := True\<rparr>
         else st\<lparr>controllerClosed := True\<rparr>)
      else st)"

definition writeError :: "environment \<Rightarrow> string \<Rightarrow> stream_state \<Rightarrow> stream_state" where
  "writeError env message st =
     (if controllerClosed st then st
      else
        let st1 = writeChunk env assistantRoleChunk st;
            st2 = writeChunk env (contentChunk (JText (''Error: '' @ message))) st1;
            st3 = writeChunk env finalChunk st2
        in safeClose env st3)"

definition ensureMinimalResponse :: "environment \<Rightarrow> stream_state \<Rightarrow> stream_state" where
  "ensureMinimalResponse env st =
     (if \<not> controllerClosed st \<and> \<not> hasFinished st then
        let st1 =
              (if \<not> hasContentBeenSent st \<and> \<not> controllerClosed st
               then (writeChunk env (contentChunk (JText ''Response received from model.'')) st)
                      \<lparr>hasContentBeenSent := True\<rparr>
               else st)
        in if \<not> controllerClosed st1
           then safeClose env ((writeChunk env finalChunk st1)\<lparr>hasFinished := True\<rparr>)
           else st1
      else st)"

text \<open>
  The body of the \<^verbatim>\<open>for (const line of lines)\<close> loop up to its closing
  \<^verbatim>\<open>if (controllerClosed) break\<close>. The flag returned is \<open>True\<close> when the body ran into
  the \<^verbatim>\<open>return\<close> that follows a frame with \<open>done\<close>.
\<close>

definition processLine :: "environment \<Rightarrow> string \<Rightarrow> stream_state \<Rightarrow> stream_state \<times> bool" where
  "processLine env line st =
     (if trim line \<noteq> [] \<and> \<not> hasFinished st \<and> \<not> controllerClosed st then
        (case readFrame line of
           None \<Rightarrow> (st, False)
         | Some ollamaData \<Rightarrow>
             let st1 =
                   (case frame_content ollamaData of
                      Some c \<Rightarrow>
                        if \<not> controllerClosed st
                        then (writeChunk env (contentChunk c) st)\<lparr>hasContentBeenSent := True\<rparr>
                        else st
                    | None \<Rightarrow> st)
             in if frame_done ollamaData \<and> \<not> controllerClosed st1
                then (safeClose env ((writeChunk env finalChunk st1)\<lparr>hasFinished := True\<rparr>), True)
                else (st1, False))
      else (st, False))"

fun processLines :: "environment \<Rightarrow> string list \<Rightarrow> stream_state \<Rightarrow> stream_state \<times> bool" where
  "processLines env [] st = (st, False)"
| "processLines env (line # rest) st =
     (case processLine env line st of
        (st1, returned) \<Rightarrow>
          if returned then (st1, True)
          else if controllerClosed st1 then (st1, False)
          else processLines env rest st1)"

text \<open>
  How the \<^verbatim>\<open>while (!hasFinished && !controllerClosed)\<close> loop is left: it ends (its
  condition fails, or a read reports \<open>done\<close>), the handler returns from inside it, or a
  read throws.
\<close>

datatype loop_exit = LoopEnds stream_state | Returned stream_state | Thrown string stream_state

fun readLoop :: "environment \<Rightarrow> read_event list \<Rightarrow> stream_state \<Rightarrow> loop_exit" where
  "readLoop env [] st = LoopEnds st"
| "readLoop env (ev # evs) st =
     (if hasFinished st \<or> controllerClosed st then LoopEnds st
      else case ev of
             ReadThrows m \<Rightarrow> Thrown m st
           | Bytes text \<Rightarrow>
               let lines = splitNL (buffer st @ text);
                   st1 = st\<lparr>buffer := last lines\<rparr>
               in (case processLines env (butlast lines) st1 of
                     (st2, returned) \<Rightarrow>
                       if returned then Returned st2 else readLoop env evs st2))"

text \<open>The code between the loop and the \<^verbatim>\<open>finally\<close>: the rest of the buffer, then the close.\<close>

definition finishStream :: "environment \<Rightarrow> stream_state \<Rightarrow> stream_state" where
  "finishStream env st =
     (let st2 =
            (if trim (buffer st) \<noteq> [] \<and> \<not> hasFinished st \<and> \<not> controllerClosed st then
               (case readFrame (trim (buffer st)) of
                  None \<Rightarrow> st
                | Some ollamaData \<Rightarrow>
                    let st1 =
                          (case frame_content ollamaData of
                             Some c \<Rightarrow>
                               if \<not> controllerClosed st
                               then (writeChunk env (contentChunk c) st)\<lparr>hasContentBeenSent := True\<rparr>
                               else st
                           | None \<Rightarrow> st)
                    in if frame_done ollamaData then st1\<lparr>hasFinished := True\<rparr> else st1)
             else st)
      in if \<not> hasFinished st2 \<and> \<not> controllerClosed st2 then ensureMinimalResponse env st2
         else if \<not> controllerClosed st2 then safeClose env st2
         else st2)"

definition initialState :: stream_state where
  "initialState =
     \<lparr>enqueued = [], controllerClosed = False, hasFinished = False,
      hasContentBeenSent = False, buffer = []\<rparr>"

definition catchStreamError :: "environment \<Rightarrow> string \<Rightarrow> stream_state \<Rightarrow> stream_state" where
  "catchStreamError env message st =
     (if \<not> controllerClosed st
      then writeError env (orElse message ''Internal streaming error'') st
      else st)"

definition streamStart :: "environment \<Rightarrow> ollama_chat_request \<Rightarrow> string \<Rightarrow> stream_state" where
  "streamStart env ollamaRequest model =
     (case chatCompletion env model ollamaRequest of
        Inl m \<Rightarrow> catchStreamError env m initialState
      | Inr r \<Rightarrow>
          if \<not> reply_ok r then
            (case reply_text_error r of
               Some m \<Rightarrow> catchStreamError env m initialState
             | None \<Rightarrow>
                 writeError env (''Ollama request failed: '' @ showNat (reply_status r)) initialState)
          else
            (case reply_body r of
               None \<Rightarrow> writeError env ''No response body from Ollama'' initialState
             | Some reads \<Rightarrow>
                 (case readLoop env reads (writeChunk env assistantRoleChunk initialState) of
                    Returned st \<Rightarrow> st
                  | LoopEnds st \<Rightarrow> finishStream env st
                  | Thrown m st \<Rightarrow> catchStreamError env m st)))"

text \<open>The response carries the stream; what the consumer gets is what was enqueued.\<close>

definition handleStreamingChat ::
  "environment \<Rightarrow> ollama_chat_request \<Rightarrow> string \<Rightarrow> openai_chat_request \<Rightarrow> response" where
  "handleStreamingChat env ollamaRequest model originalRequest =
     EventStream (enqueued (streamStart env ollamaRequest model))"

section \<open>The chat-completions dispatcher (chat.ts, handleChatCompletions)\<close>

text \<open>
  The request as the handler sees it: its \<open>Authorization\<close> header and what
  \<^verbatim>\<open>await req.json()\<close> gives. \<open>Inl m\<close> is an exception with message \<open>m\<close> before any
  validation: the body is not JSON, or it is \<^verbatim>\<open>null\<close>, whose fields cannot be read.
\<close>

record chat_http_request =
  authorization :: "string option"
  json_body :: "string + openai_chat_request"

definition buildOptions :: "openai_chat_request \<Rightarrow> ollama_options" where
  "buildOptions body =
     \<lparr>opt_temperature = req_temperature body,
      opt_num_predict = req_max_tokens body,
      opt_top_p = req_top_p body,
      opt_frequency_penalty = req_frequency_penalty body,
      opt_presence_penalty = req_presence_penalty body,
      opt_stop =
        (case req_stop body of
           None \<Rightarrow> None
         | Some (StopArray a) \<Rightarrow> Some a
         | Some (StopString s) \<Rightarrow> Some [s])\<rparr>"

definition noOptions :: ollama_options where
  "noOptions =
     \<lparr>opt_temperature = None, opt_num_predict = None, opt_top_p = None,
      opt_frequency_penalty = None, opt_presence_penalty = None, opt_stop = None\<rparr>"

definition buildOllamaRequest :: "openai_chat_request \<Rightarrow> string \<Rightarrow> bool \<Rightarrow> ollama_chat_request" where
  "buildOllamaRequest body model effectiveStream =
     \<lparr>oreq_model = model,
      oreq_messages =
        convertToOllamaMessages (case req_messages body of None \<Rightarrow> [] | Some ms \<Rightarrow> ms),
      oreq_stream = effectiveStream,
      oreq_options = (if buildOptions body = noOptions then None else Some (buildOptions body)),
      oreq_format = (if isJsonObjectFormat body then Some ''json'' else None)\<rparr>"

text \<open>
  \<open>model\<close> and \<open>messages\<close> are read after \<open>validateRequest\<close> has passed, so both are
  present; the \<open>None\<close> branches below are never taken.
\<close>

definition handleChatCompletions :: "environment \<Rightarrow> chat_http_request \<Rightarrow> response" where
  "handleChatCompletions env req =
     (case validateAuth (authorization req) of
        Some e \<Rightarrow> e
      | None \<Rightarrow>
          (case json_body req of
             Inl m \<Rightarrow> internalError m
           | Inr body \<Rightarrow>
               (case validateRequest body of
                  Some e \<Rightarrow> e
                | None \<Rightarrow>
                    let availableModels = availableModelIds (local_tags env) (remote_tags env);
                        model = (case req_model body of None \<Rightarrow> [] | Some m \<Rightarrow> m)
                    in if \<not> validateModel model availableModels then
                         createErrorResponse
                           (''The model '' @ [CHR 0x27] @ model @ [CHR 0x27] @ '' does not exist'')
                           ''invalid_request_error'' 404 (Some ''model'')
                       else
                         (case validateParameters body of
                            Some e \<Rightarrow> e
                          | None \<Rightarrow>
                              let stream = (case req_stream body of None \<Rightarrow> False | Some b \<Rightarrow> b);
                                  effectiveStream = (stream \<and> OLLAMA_STREAM env);
                                  ollamaRequest = buildOllamaRequest body model effectiveStream
                              in if effectiveStream
                                 then handleStreamingChat env ollamaRequest model body
                                 else handleNonStreamingChat env ollamaRequest model body))))"

section \<open>Vocabulary of the streaming properties\<close>

text \<open>
  An upstream body that closes in the ordinary way serves no throwing read.
  \<open>upstreamText\<close> is everything it delivers, the pieces put together.
\<close>

definition noReadThrows :: "read_event list \<Rightarrow> bool" where
  "noReadThrows reads = (\<forall>ev \<in> set reads. case ev of Bytes t \<Rightarrow> True | ReadThrows m \<Rightarrow> False)"

fun upstreamText :: "read_event list \<Rightarrow> string" where
  "upstreamText [] = []"
| "upstreamText (Bytes t # evs) = t @ upstreamText evs"
| "upstreamText (ReadThrows m # evs) = upstreamText evs"

text \<open>
  A line carries nothing when the pipeline reads neither a content nor a completion flag
  off it: it is not a frame at all, or a frame with no truthy \<open>message.content\<close> and no
  truthy \<open>done\<close>. An upstream is silent when that holds of each of its complete lines
  that is not blank and of what follows its last line break.
\<close>

definition carriesNothing :: "string \<Rightarrow> bool" where
  "carriesNothing line =
     (case readFrame line of
        None \<Rightarrow> True
      | Some f \<Rightarrow> frame_content f = None \<and> \<not> frame_done f)"

definition silentLines :: "string list \<Rightarrow> bool" where
  "silentLines ls = (\<forall>l \<in> set ls. trim l \<noteq> [] \<longrightarrow> carriesNothing l)"

definition silentUpstream :: "read_event list \<Rightarrow> bool" where
  "silentUpstream reads =
     (let lines = splitNL (upstreamText reads)
      in silentLines (butlast lines)
         \<and> (trim (last lines) \<noteq> [] \<longrightarrow> carriesNothing (trim (last lines))))"

text \<open>
  The last, unterminated line of an upstream carries the completion flag.
\<close>

definition trailingDone :: "string \<Rightarrow> bool" where
  "trailingDone b =
     (trim b \<noteq> [] \<and> (case readFrame (trim b) of None \<Rightarrow> False | Some f \<Rightarrow> frame_done f))"

text \<open>
  Two shapes of the closure's state while the consumer stays: \<open>streaming\<close> (open, the
  role chunk and then content chunks only, \<open>hasContentBeenSent\<close> telling whether there
  is one) and \<open>completed\<close> (the terminal chunk and the sentinel have been enqueued).
\<close>

definition isContentChunk :: "emission \<Rightarrow> bool" where
  "isContentChunk e = (\<exists>c. e = contentChunk c)"

definition streaming :: "stream_state \<Rightarrow> bool" where
  "streaming st =
     (\<not> controllerClosed st \<and> \<not> hasFinished st
      \<and> (\<exists>cs. enqueued st = assistantRoleChunk # cs \<and> list_all isContentChunk cs
                \<and> (hasContentBeenSent st \<longleftrightarrow> cs \<noteq> [])))"

definition completed :: "stream_state \<Rightarrow> bool" where
  "completed st =
     (\<exists>cs. enqueued st = assistantRoleChunk # cs @ [finalChunk, Sentinel]
           \<and> list_all isContentChunk cs)"

section \<open>Concrete scenarios\<close>

text \<open>
  A deployment whose local runtime lists \<open>llama3\<close> and answers every chat call with the
  given reply, whose remote runtime is unreachable, and whose stream consumer stays
  connected; two replies (a complete JSON completion with the given content, and a body
  served by the given reads); and three request bodies: \<^verbatim>\<open>{}\<close>,
  \<^verbatim>\<open>{"model":"llama3","messages":[{"role":"user","content":"hi"}],"stream":s}\<close>, and
  the latter with \<^verbatim>\<open>"stream":false\<close> and \<^verbatim>\<open>"response_format":{"type":"json_object"}\<close>.
\<close>

definition scenario :: "bool \<Rightarrow> http_reply \<Rightarrow> environment" where
  "scenario streamFlag reply =
     \<lparr>OLLAMA_STREAM = streamFlag,
      local_tags = TagsBody (Some [\<lparr>model_name = ''llama3'', modified_at = None, digest = None\<rparr>]),
      remote_tags = TagsUnavailable,
      local_chat = (\<lambda>requestBody. FetchReply reply),
      remote_chat = (\<lambda>requestBody. FetchFails ''unreachable''),
      cancelAfter = None\<rparr>"

definition completionReply :: "string \<Rightarrow> http_reply" where
  "completionReply content =
     \<lparr>reply_status = 200, reply_statusText = ''OK'', reply_text_error = None,
      reply_json = Inr \<lparr>resp_message = Some \<lparr>rmsg_content = Some content\<rparr>,
                        resp_prompt_eval_count = Some 3, resp_eval_count = Some 5\<rparr>,
      reply_body = None\<rparr>"

definition bodyReply :: "read_event list \<Rightarrow> http_reply" where
  "bodyReply reads =
     \<lparr>reply_status = 200, reply_statusText = ''OK'', reply_text_error = None,
      reply_json = Inl ''Unexpected token'',
      reply_body = Some reads\<rparr>"

definition emptyBody :: openai_chat_request where
  "emptyBody =
     \<lparr>req_model = None, req_messages = None, req_stream = None, req_temperature = None,
      req_max_tokens = None, req_top_p = None, req_frequency_penalty = None,
      req_presence_penalty = None, req_stop = None, req_n = None, req_tools = None,
      req_response_format = None\<rparr>"

definition userTurn :: "bool option \<Rightarrow> openai_chat_request" where
  "userTurn s =
     emptyBody
       \<lparr>req_model := Some ''llama3'',
        req_messages := Some [\<lparr>msg_role = Some ''user'', msg_content = ContentString ''hi'',
                               msg_tool_call_id = None\<rparr>],
        req_stream := s\<rparr>"

definition jsonObjectTurn :: openai_chat_request where
  "jsonObjectTurn =
     (userTurn (Some False))\<lparr>req_response_format := Some \<lparr>rf_type = ''json_object''\<rparr>\<rparr>"

section \<open>Properties\<close>

subsection \<open>JSON text\<close>







lemma stringifyResponse_empty: "stringifyResponse [] = ''{\"response\":\"\"}''"
  by (simp add: stringifyResponse_def quoteJSONString_def escapeChar_def)

lemma JSON_parse_empty: "JSON_parse [] = None"
  by (simp add: JSON_parse_def)



text \<open>
  An escape is read as the code unit it names: \<^verbatim>\<open>"\u0067"\<close> is the string \<open>g\<close>, and
  \<^verbatim>\<open>"\u0167"\<close> is a string of one code unit that no character below 256 has.
\<close>

lemmas jsonEval =
  JSON_parse_def isJsonSpace_def isDigit_def consTok_def unescape_def hexValue_def
  jsString_def codeUnit_def scanNumber_def scanInt_def scanFrac_def scanExp_def

lemma JSON_parse_escapes:
  "JSON_parse (CHR 0x22 # CHR 0x5C # ''u0067'' @ [CHR 0x22]) = Some (JText ''g'')"
  "JSON_parse (CHR 0x22 # CHR 0x5C # ''u0167'' @ [CHR 0x22]) = Some (JStr [359])"
  "JStr [359] \<noteq> JText [c]"
proof -
  show "JSON_parse (CHR 0x22 # CHR 0x5C # ''u0067'' @ [CHR 0x22]) = Some (JText ''g'')"
    by (simp add: jsonEval)
  show "JSON_parse (CHR 0x22 # CHR 0x5C # ''u0167'' @ [CHR 0x22]) = Some (JStr [359])"
    by (simp add: jsonEval)
  have b: "(of_char c :: nat) < 256" by simp
  then have "(of_char c :: nat) mod 65536 = of_char c" by (intro mod_less) linarith
  then have "unat (codeUnit c) = of_char c"
    by (simp add: codeUnit_def unat_of_nat)
  with b have "unat (codeUnit c) < 256" by simp
  moreover have "unat (359 :: 16 word) = 359" by simp
  ultimately have "codeUnit c \<noteq> 359" by auto
  then show "JStr [359] \<noteq> JText [c]" by (auto simp: jsString_def)
qed

text \<open>
  Truthiness of number literals: the least positive binary64 value is \<open>2 ^ -1074\<close>,
  about \<^verbatim>\<open>4.94e-324\<close>, so \<^verbatim>\<open>3e-324\<close> is read as it and \<^verbatim>\<open>2e-324\<close> as zero.
\<close>

lemmas numEval = numberNonZero_def exponent_def mantissa_def digitsValue_def isDigit_def

lemma numberNonZero_examples:
  "\<not> numberNonZero ''0''" "\<not> numberNonZero ''-0.000e5''" "numberNonZero ''0.5''"
  "numberNonZero ''-12.5E+400''" "\<not> numberNonZero ''1e-400''"
  "\<not> numberNonZero ''2e-324''" "numberNonZero ''3e-324''"
  by (simp_all add: numEval)

subsection \<open>The concrete scenarios, evaluated\<close>

lemma validateRequest_userTurn: "validateRequest (userTurn s) = None"
  by (simp add: validateRequest_def userTurn_def emptyBody_def validateMessage_def Let_def
                isTruthyContent_def convertContentToString_def)

lemma availableModelIds_scenario:
  "availableModelIds (local_tags (scenario f r)) (remote_tags (scenario f r)) = [''llama3'']"
  by (simp add: scenario_def availableModelIds_def getUnifiedModels_def getLocalModels_def
                getRemoteModels_def modelsOrEmpty_def deduplicateModels_def isRemoteModel_def
                REMOTE_MODELS_def)

lemma userTurn_fields:
  "req_model (userTurn s) = Some ''llama3''" "req_tools (userTurn s) = None"
  "req_response_format (userTurn s) = None" "req_stream (userTurn s) = s"
  by (simp_all add: userTurn_def emptyBody_def)

lemma validateParameters_userTurn: "validateParameters (userTurn s) = None"
  by (simp add: validateParameters_def userTurn_def emptyBody_def)

lemma validateAuth_examples:
  "validateAuth None = None" "validateAuth (Some ''Bearer any-key'') = None"
  by (simp_all add: validateAuth_def startsWith_def)

lemma chatCompletion_scenario:
  "chatCompletion (scenario f r) ''llama3'' rq = Inr r"
  by (simp add: chatCompletion_def scenario_def)

lemma completionReply_fields:
  "reply_ok (completionReply c)"
  "reply_json (completionReply c) =
     Inr \<lparr>resp_message = Some \<lparr>rmsg_content = Some c\<rparr>,
          resp_prompt_eval_count = Some 3, resp_eval_count = Some 5\<rparr>"
  by (simp_all add: completionReply_def reply_ok_def)

lemma bodyReply_fields:
  "reply_ok (bodyReply reads)" "reply_body (bodyReply reads) = Some reads"
  by (simp_all add: bodyReply_def reply_ok_def)

lemma scenario_connected: "cancelAfter (scenario f r) = None"
  by (simp add: scenario_def)

lemma handleNonStreamingChat_scenario:
  "handleNonStreamingChat (scenario f (completionReply c)) rq ''llama3'' body =
     ChatCompletion
       \<lparr>cr_object = ''chat.completion'', cr_model = ''llama3'',
        cr_system_fingerprint = ''fp_ollama_proxy'',
        cr_choices =
          [\<lparr>ch_index = 0,
            ch_message = \<lparr>am_role = ''assistant'',
                          am_content = normalizeContent body
                            \<lparr>resp_message = Some \<lparr>rmsg_content = Some c\<rparr>,
                             resp_prompt_eval_count = Some 3, resp_eval_count = Some 5\<rparr>\<rparr>,
            ch_finish_reason = Some ''stop''\<rparr>],
        cr_usage = \<lparr>prompt_tokens = 3, completion_tokens = 5, total_tokens = 8\<rparr>\<rparr>"
  by (simp add: handleNonStreamingChat_def chatCompletion_scenario completionReply_fields
                countOrZero_def)

lemma dispatch_userTurn:
  "handleChatCompletions (scenario f r) \<lparr>authorization = None, json_body = Inr (userTurn s)\<rparr> =
     (if s = Some True \<and> f
      then handleStreamingChat (scenario f r)
             (buildOllamaRequest (userTurn s) ''llama3'' True) ''llama3'' (userTurn s)
      else handleNonStreamingChat (scenario f r)
             (buildOllamaRequest (userTurn s) ''llama3'' False) ''llama3'' (userTurn s))"
proof -
  have o: "OLLAMA_STREAM (scenario g r) = g" for g by (simp add: scenario_def)
  note defs = handleChatCompletions_def validateAuth_examples validateRequest_userTurn
              validateParameters_userTurn availableModelIds_scenario validateModel_def
              userTurn_fields Let_def o
  show ?thesis
  proof (cases s)
    case None
    then show ?thesis by (simp add: defs)
  next
    case (Some b)
    then show ?thesis by (cases b; cases f) (simp_all add: defs)
  qed
qed

lemma jsonObjectTurn_fields:
  "req_model jsonObjectTurn = Some ''llama3''" "req_tools jsonObjectTurn = None"
  "isJsonObjectFormat jsonObjectTurn" "req_stream jsonObjectTurn = Some False"
  by (simp_all add: jsonObjectTurn_def userTurn_def emptyBody_def isJsonObjectFormat_def)

lemma dispatch_jsonObjectTurn:
  "handleChatCompletions (scenario f r) \<lparr>authorization = None, json_body = Inr jsonObjectTurn\<rparr> =
     handleNonStreamingChat (scenario f r)
       (buildOllamaRequest jsonObjectTurn ''llama3'' False) ''llama3'' jsonObjectTurn"
proof -
  have v: "validateRequest jsonObjectTurn = None"
    by (simp add: validateRequest_def jsonObjectTurn_def userTurn_def emptyBody_def
                  validateMessage_def Let_def isTruthyContent_def convertContentToString_def)
  have p: "validateParameters jsonObjectTurn = None"
    by (simp add: validateParameters_def jsonObjectTurn_def userTurn_def emptyBody_def)
  show ?thesis
    by (simp add: handleChatCompletions_def validateAuth_examples v p availableModelIds_scenario
                  validateModel_def jsonObjectTurn_fields Let_def)
qed

subsection \<open>Message content translation\<close>

lemma joinWith_Cons: "joinWith sep (x # xs) = x @ concat (map (\<lambda>y. sep @ y) xs)"
  by (induction xs arbitrary: x) simp_all

text \<open>
  Claim C8. A plain string converts to itself. From a content array only the parts of
  type \<open>text\<close> that carry a non-empty text are kept, in their order, and their texts are
  joined with one space between neighbours (after the first kept text, each further one
  is preceded by exactly one space); any other entry contributes nothing. The array
  \<^verbatim>\<open>[{type:"text",text:"a"},{type:"image_url",...},{type:"text",text:"b"}]\<close> converts
  to \<^verbatim>\<open>"a b"\<close>.
\<close>

theorem convertContentToString_text_parts:
  "convertContentToString (ContentString s) = s
   \<and> convertContentToString (ContentArray
         [Some \<lparr>part_type = ''text'', part_text = Some ''a''\<rparr>,
          Some \<lparr>part_type = ''image_url'', part_text = None\<rparr>,
          Some \<lparr>part_type = ''text'', part_text = Some ''b''\<rparr>]) = ''a b''
   \<and> convertContentToString (ContentArray arr) =
       joinWith '' ''
         (concat (map (\<lambda>e. case e of
                          None \<Rightarrow> []
                        | Some p \<Rightarrow>
                            (case part_text p of
                               None \<Rightarrow> []
                             | Some t \<Rightarrow> if part_type p = ''text'' \<and> t \<noteq> [] then [t] else []))
                      arr))
   \<and> (\<forall>p. part_type p \<noteq> ''text'' \<longrightarrow>
          convertContentToString (ContentArray (xs @ Some p # ys)) =
          convertContentToString (ContentArray (xs @ ys)))
   \<and> (\<forall>p t ps. isTextPart p \<and> part_text p = Some t \<longrightarrow>
          convertContentToString (ContentArray (Some p # ps)) =
          t @ concat (map (\<lambda>q. '' '' @ textOf q) (filter isTextPart (filterBoolean ps))))"
proof -
  have c1: "convertContentToString (ContentString s) = s"
    by (simp add: convertContentToString_def)
  have c2: "convertContentToString (ContentArray
         [Some \<lparr>part_type = ''text'', part_text = Some ''a''\<rparr>,
          Some \<lparr>part_type = ''image_url'', part_text = None\<rparr>,
          Some \<lparr>part_type = ''text'', part_text = Some ''b''\<rparr>]) = ''a b''"
    by (simp add: convertContentToString_def filterBoolean_def isTextPart_def textOf_def)
  have kept: "map textOf (filter isTextPart (filterBoolean arr)) =
      concat (map (\<lambda>e. case e of
                          None \<Rightarrow> []
                        | Some p \<Rightarrow>
                            (case part_text p of
                               None \<Rightarrow> []
                             | Some t \<Rightarrow> if part_type p = ''text'' \<and> t \<noteq> [] then [t] else []))
                      arr)"
    by (induction arr)
       (auto simp: filterBoolean_def isTextPart_def textOf_def split: option.splits)
  have c3: "convertContentToString (ContentArray arr) =
       joinWith '' ''
         (concat (map (\<lambda>e. case e of
                          None \<Rightarrow> []
                        | Some p \<Rightarrow>
                            (case part_text p of
                               None \<Rightarrow> []
                             | Some t \<Rightarrow> if part_type p = ''text'' \<and> t \<noteq> [] then [t] else []))
                      arr))"
    by (simp only: convertContentToString_def message_content.case kept)
  have c4: "\<forall>p. part_type p \<noteq> ''text'' \<longrightarrow>
          convertContentToString (ContentArray (xs @ Some p # ys)) =
          convertContentToString (ContentArray (xs @ ys))"
    by (simp add: convertContentToString_def filterBoolean_def isTextPart_def)
  have c5: "\<forall>p t ps. isTextPart p \<and> part_text p = Some t \<longrightarrow>
          convertContentToString (ContentArray (Some p # ps)) =
          t @ concat (map (\<lambda>q. '' '' @ textOf q) (filter isTextPart (filterBoolean ps)))"
    by (simp add: convertContentToString_def filterBoolean_def joinWith_Cons textOf_def comp_def
             del: joinWith.simps)
  from c1 c2 c3 c4 c5 show ?thesis by blast
qed

text \<open>
  Claim C8, at concrete arrays: an image part between two text parts changes nothing,
  and a text part followed by an \<^verbatim>\<open>undefined\<close> entry and a second text part gives the two
  texts with one space between them.
\<close>

theorem convertContentToString_text_parts_witness:
  "convertContentToString (ContentArray
       ([Some \<lparr>part_type = ''text'', part_text = Some ''x''\<rparr>]
        @ Some \<lparr>part_type = ''image_url'', part_text = None\<rparr>
        # [Some \<lparr>part_type = ''text'', part_text = Some ''y''\<rparr>])) =
   convertContentToString (ContentArray
       ([Some \<lparr>part_type = ''text'', part_text = Some ''x''\<rparr>]
        @ [Some \<lparr>part_type = ''text'', part_text = Some ''y''\<rparr>]))
   \<and> convertContentToString (ContentArray
       (Some \<lparr>part_type = ''text'', part_text = Some ''x''\<rparr>
        # [None, Some \<lparr>part_type = ''text'', part_text = Some ''y''\<rparr>])) = ''x y''"
proof -
  note t = convertContentToString_text_parts
    [of "[]" "[]" "[Some \<lparr>part_type = ''text'', part_text = Some ''x''\<rparr>]"
        "[Some \<lparr>part_type = ''text'', part_text = Some ''y''\<rparr>]"]
  have a: "part_type \<lparr>part_type = ''image_url'', part_text = None\<rparr> \<noteq> ''text''" by simp
  have b: "isTextPart \<lparr>part_type = ''text'', part_text = Some ''x''\<rparr>
           \<and> part_text \<lparr>part_type = ''text'', part_text = Some ''x''\<rparr> = Some ''x''"
    by (simp add: isTextPart_def)
  from t have d: "\<forall>p. part_type p \<noteq> ''text'' \<longrightarrow>
          convertContentToString (ContentArray
            ([Some \<lparr>part_type = ''text'', part_text = Some ''x''\<rparr>] @ Some p #
             [Some \<lparr>part_type = ''text'', part_text = Some ''y''\<rparr>])) =
          convertContentToString (ContentArray
            ([Some \<lparr>part_type = ''text'', part_text = Some ''x''\<rparr>] @
             [Some \<lparr>part_type = ''text'', part_text = Some ''y''\<rparr>]))"
    by blast
  from t have f: "\<forall>p t ps. isTextPart p \<and> part_text p = Some t \<longrightarrow>
          convertContentToString (ContentArray (Some p # ps)) =
          t @ concat (map (\<lambda>q. '' '' @ textOf q) (filter isTextPart (filterBoolean ps)))"
    by blast
  from d a have 1: "convertContentToString (ContentArray
       ([Some \<lparr>part_type = ''text'', part_text = Some ''x''\<rparr>]
        @ Some \<lparr>part_type = ''image_url'', part_text = None\<rparr>
        # [Some \<lparr>part_type = ''text'', part_text = Some ''y''\<rparr>])) =
   convertContentToString (ContentArray
       ([Some \<lparr>part_type = ''text'', part_text = Some ''x''\<rparr>]
        @ [Some \<lparr>part_type = ''text'', part_text = Some ''y''\<rparr>]))"
    by blast
  from f b have 2: "convertContentToString (ContentArray
       (Some \<lparr>part_type = ''text'', part_text = Some ''x''\<rparr>
        # [None, Some \<lparr>part_type = ''text'', part_text = Some ''y''\<rparr>])) =
      ''x'' @ concat (map (\<lambda>q. '' '' @ textOf q) (filter isTextPart (filterBoolean
           [None, Some \<lparr>part_type = ''text'', part_text = Some ''y''\<rparr>])))"
    by blast
  from 1 2 show ?thesis
    by (simp add: filterBoolean_def isTextPart_def textOf_def)
qed

subsection \<open>Routing by model name\<close>

lemma fetch_model_paths: 
    assumes m: "req_method req = ''POST''"
    and p: "req_pathname req \<in> set [''/api/generate'', ''/api/chat'', ''/api/embed'',
                                   ''/api/embeddings'', ''/api/show'']"
  shows "fetch req =
        (case extractModelFromRequest req of
              Some model \<Rightarrow> if isRemoteModelValue model then Forward Remote else Forward Local
            | None \<Rightarrow> Forward Local)"
proof -
  from p consider "req_pathname req = ''/api/generate''" | "req_pathname req = ''/api/chat''"
    | "req_pathname req = ''/api/embed''" | "req_pathname req = ''/api/embeddings''"
    | "req_pathname req = ''/api/show''"
    by auto
  then show ?thesis
    by cases (simp_all add: fetch_def Let_def startsWith_def m)
qed

lemma isRemoteModel_cases:
  "isRemoteModel name \<Longrightarrow> name = ''gpt-oss:120b'' \<or> name = ''gpt-oss:20b''"
  by (simp add: isRemoteModel_def REMOTE_MODELS_def)

lemma isRemoteModelValue_iff:
  "isRemoteModelValue m \<longleftrightarrow> (\<exists>name. m = JText name \<and> isRemoteModel name)"
  by (cases m) (auto simp: isRemoteModelValue_def isRemoteModel_def)

text \<open>
  Claim C7. \<open>isRemoteModel\<close> is membership in the allowlist
  \<^verbatim>\<open>['gpt-oss:120b', 'gpt-oss:20b']\<close>: true of \<open>gpt-oss:120b\<close>, false of \<open>llama3\<close>. A
  \<^verbatim>\<open>POST\<close> to \<^verbatim>\<open>/api/generate\<close>, \<^verbatim>\<open>/api/chat\<close>, \<^verbatim>\<open>/api/embed\<close>, \<^verbatim>\<open>/api/embeddings\<close> or
  \<^verbatim>\<open>/api/show\<close> is forwarded to the remote backend exactly when the model parsed from its
  body is a string with the code units of an allowlisted name, and to the local backend
  otherwise, in particular when no model can be parsed.
\<close>

theorem isRemoteModel_routing:
  "(isRemoteModel name \<longleftrightarrow> name \<in> set [''gpt-oss:120b'', ''gpt-oss:20b''])
   \<and> isRemoteModel ''gpt-oss:120b''
   \<and> \<not> isRemoteModel ''llama3''
   \<and> (req_method req = ''POST''
        \<and> req_pathname req \<in> set [''/api/generate'', ''/api/chat'', ''/api/embed'',
                                   ''/api/embeddings'', ''/api/show'']
        \<longrightarrow> (fetch req = Forward Remote \<longleftrightarrow>
               (\<exists>name. extractModelFromRequest req = Some (JText name) \<and> isRemoteModel name))
            \<and> (fetch req \<noteq> Forward Remote \<longrightarrow> fetch req = Forward Local)
            \<and> (extractModelFromRequest req = None \<longrightarrow> fetch req = Forward Local))"
proof (intro conjI impI)
  show "isRemoteModel name \<longleftrightarrow> name \<in> set [''gpt-oss:120b'', ''gpt-oss:20b'']"
    by (simp add: isRemoteModel_def REMOTE_MODELS_def)
  show "isRemoteModel ''gpt-oss:120b''"
    by (simp add: isRemoteModel_def REMOTE_MODELS_def)
  show "\<not> isRemoteModel ''llama3''"
    by (simp add: isRemoteModel_def REMOTE_MODELS_def)
next
  assume h: "req_method req = ''POST''
        \<and> req_pathname req \<in> set [''/api/generate'', ''/api/chat'', ''/api/embed'',
                                   ''/api/embeddings'', ''/api/show'']"
  then have f: "fetch req =
        (case extractModelFromRequest req of
              Some model \<Rightarrow> if isRemoteModelValue model then Forward Remote else Forward Local
            | None \<Rightarrow> Forward Local)"
    using fetch_model_paths by blast
  show "fetch req = Forward Remote \<longleftrightarrow>
               (\<exists>name. extractModelFromRequest req = Some (JText name) \<and> isRemoteModel name)"
    unfolding f by (cases "extractModelFromRequest req") (simp_all add: isRemoteModelValue_iff)
  show "fetch req = Forward Local" if "fetch req \<noteq> Forward Remote"
    using that unfolding f by (cases "extractModelFromRequest req") (simp_all split: if_splits)
  show "fetch req = Forward Local" if "extractModelFromRequest req = None"
    using that unfolding f by simp
qed

text \<open>
  Claim C7, at five requests: a chat call naming \<open>gpt-oss:120b\<close> goes remote, a
  generate call naming \<open>llama3\<close> goes local, a body that is not JSON goes local, a
  model written \<^verbatim>\<open>"\u0067pt-oss:120b"\<close> (the escape of \<open>g\<close>) goes remote, and a model
  written \<^verbatim>\<open>"\u0167pt-oss:120b"\<close> (another letter) goes local.
\<close>

theorem isRemoteModel_routing_witness:
  "fetch \<lparr>req_method = ''POST'', req_pathname = ''/api/chat'',
          req_body = ''{\"model\":\"gpt-oss:120b\",\"messages\":[]}''\<rparr> = Forward Remote
   \<and> fetch \<lparr>req_method = ''POST'', req_pathname = ''/api/generate'',
          req_body = ''{\"model\":\"llama3\",\"prompt\":\"hi\"}''\<rparr> = Forward Local
   \<and> fetch \<lparr>req_method = ''POST'', req_pathname = ''/api/show'',
          req_body = ''not json''\<rparr> = Forward Local
   \<and> fetch \<lparr>req_method = ''POST'', req_pathname = ''/api/chat'',
          req_body = ''{\"model\":\"'' @ CHR 0x5C # ''u0067pt-oss:120b\"}''\<rparr> = Forward Remote
   \<and> fetch \<lparr>req_method = ''POST'', req_pathname = ''/api/chat'',
          req_body = ''{\"model\":\"'' @ CHR 0x5C # ''u0167pt-oss:120b\"}''\<rparr> = Forward Local"
proof -
  let ?r1 = "\<lparr>req_method = ''POST'', req_pathname = ''/api/chat'',
          req_body = ''{\"model\":\"gpt-oss:120b\",\"messages\":[]}''\<rparr>"
  let ?r2 = "\<lparr>req_method = ''POST'', req_pathname = ''/api/generate'',
          req_body = ''{\"model\":\"llama3\",\"prompt\":\"hi\"}''\<rparr>"
  let ?r3 = "\<lparr>req_method = ''POST'', req_pathname = ''/api/show'',
          req_body = ''not json''\<rparr>"
  let ?r4 = "\<lparr>req_method = ''POST'', req_pathname = ''/api/chat'',
          req_body = ''{\"model\":\"'' @ CHR 0x5C # ''u0067pt-oss:120b\"}''\<rparr>"
  let ?r5 = "\<lparr>req_method = ''POST'', req_pathname = ''/api/chat'',
          req_body = ''{\"model\":\"'' @ CHR 0x5C # ''u0167pt-oss:120b\"}''\<rparr>"
  note ev = extractModelFromRequest_def JSON_parse_def isJsonSpace_def isDigit_def
            consTok_def unescape_def hexValue_def jsString_def codeUnit_def
  have e1: "extractModelFromRequest ?r1 = Some (JText ''gpt-oss:120b'')"
    by (simp add: ev)
  have e2: "extractModelFromRequest ?r2 = Some (JText ''llama3'')"
    by (simp add: ev)
  have e3: "extractModelFromRequest ?r3 = None"
    by (simp add: ev)
  have e4: "extractModelFromRequest ?r4 = Some (JText ''gpt-oss:120b'')"
    by (simp add: ev)
  have e5: "extractModelFromRequest ?r5 = Some (JStr (359 # jsString ''pt-oss:120b''))"
    by (simp add: ev)
  have d2: "JText ''llama3'' \<noteq> JText name" if "isRemoteModel name" for name
  proof -
    have a: "JText ''llama3'' \<noteq> JText ''gpt-oss:120b''"
      by (simp add: jsString_def codeUnit_def)
    have b: "JText ''llama3'' \<noteq> JText ''gpt-oss:20b''"
      by (simp add: jsString_def codeUnit_def)
    from isRemoteModel_cases[OF that] a b show ?thesis by blast
  qed
  have d5: "JStr (359 # jsString ''pt-oss:120b'') \<noteq> JText name" if "isRemoteModel name" for name
  proof -
    have a: "JStr (359 # jsString ''pt-oss:120b'') \<noteq> JText ''gpt-oss:120b''"
      by (simp add: jsString_def codeUnit_def)
    have b: "JStr (359 # jsString ''pt-oss:120b'') \<noteq> JText ''gpt-oss:20b''"
      by (simp add: jsString_def codeUnit_def)
    from isRemoteModel_cases[OF that] a b show ?thesis by blast
  qed
  have p1: "req_method ?r1 = ''POST''
        \<and> req_pathname ?r1 \<in> set [''/api/generate'', ''/api/chat'', ''/api/embed'',
                                   ''/api/embeddings'', ''/api/show'']" by simp
  have p2: "req_method ?r2 = ''POST''
        \<and> req_pathname ?r2 \<in> set [''/api/generate'', ''/api/chat'', ''/api/embed'',
                                   ''/api/embeddings'', ''/api/show'']" by simp
  have p3: "req_method ?r3 = ''POST''
        \<and> req_pathname ?r3 \<in> set [''/api/generate'', ''/api/chat'', ''/api/embed'',
                                   ''/api/embeddings'', ''/api/show'']" by simp
  have p4: "req_method ?r4 = ''POST''
        \<and> req_pathname ?r4 \<in> set [''/api/generate'', ''/api/chat'', ''/api/embed'',
                                   ''/api/embeddings'', ''/api/show'']" by simp
  have p5: "req_method ?r5 = ''POST''
        \<and> req_pathname ?r5 \<in> set [''/api/generate'', ''/api/chat'', ''/api/embed'',
                                   ''/api/embeddings'', ''/api/show'']" by simp
  note t1 = isRemoteModel_routing[of "''gpt-oss:120b''" ?r1, THEN conjunct2, THEN conjunct2,
              THEN conjunct2, THEN mp, OF p1]
  note t2 = isRemoteModel_routing[of "''llama3''" ?r2, THEN conjunct2, THEN conjunct2,
              THEN conjunct2, THEN mp, OF p2]
  note t3 = isRemoteModel_routing[of "''llama3''" ?r3, THEN conjunct2, THEN conjunct2,
              THEN conjunct2, THEN mp, OF p3]
  note t4 = isRemoteModel_routing[of "''gpt-oss:120b''" ?r4, THEN conjunct2, THEN conjunct2,
              THEN conjunct2, THEN mp, OF p4]
  note t5 = isRemoteModel_routing[of "''llama3''" ?r5, THEN conjunct2, THEN conjunct2,
              THEN conjunct2, THEN mp, OF p5]
  have r: "isRemoteModel ''gpt-oss:120b''"
    using isRemoteModel_routing[of "''gpt-oss:120b''" ?r1, THEN conjunct2, THEN conjunct1] .
  have 1: "fetch ?r1 = Forward Remote"
  proof (rule t1[THEN conjunct1, THEN iffD2])
    from e1 r show "\<exists>name. extractModelFromRequest ?r1 = Some (JText name) \<and> isRemoteModel name"
      by blast
  qed
  have "fetch ?r2 \<noteq> Forward Remote"
  proof
    assume "fetch ?r2 = Forward Remote"
    with t2[THEN conjunct1] obtain name where
      "extractModelFromRequest ?r2 = Some (JText name)" "isRemoteModel name" by blast
    with e2 d2[of name] show False by simp
  qed
  then have 2: "fetch ?r2 = Forward Local"
    by (rule t2[THEN conjunct2, THEN conjunct1, THEN mp])
  have 3: "fetch ?r3 = Forward Local"
    by (rule t3[THEN conjunct2, THEN conjunct2, THEN mp]) (rule e3)
  have 4: "fetch ?r4 = Forward Remote"
  proof (rule t4[THEN conjunct1, THEN iffD2])
    from e4 r show "\<exists>name. extractModelFromRequest ?r4 = Some (JText name) \<and> isRemoteModel name"
      by blast
  qed
  have "fetch ?r5 \<noteq> Forward Remote"
  proof
    assume "fetch ?r5 = Forward Remote"
    with t5[THEN conjunct1] obtain name where
      "extractModelFromRequest ?r5 = Some (JText name)" "isRemoteModel name" by blast
    with e5 d5[of name] show False by simp
  qed
  then have 5: "fetch ?r5 = Forward Local"
    by (rule t5[THEN conjunct2, THEN conjunct1, THEN mp])
  from 1 2 3 4 5 show ?thesis by (intro conjI)
qed

subsection \<open>The unified model list\<close>

lemma dedupLoop_acc: "dedupLoop seen acc ms = acc @ dedupLoop seen [] ms"
proof (induction ms arbitrary: seen acc)
  case Nil
  show ?case by simp
next
  case (Cons m ms)
  show ?case
  proof (cases "model_name m \<in> seen")
    case True
    with Cons.IH[of seen acc] show ?thesis by simp
  next
    case False
    with Cons.IH[of "insert (model_name m) seen" "acc @ [m]"]
         Cons.IH[of "insert (model_name m) seen" "[m]"]
    show ?thesis by simp
  qed
qed

lemma dedupLoop_keepFirst:
  "dedupLoop seen [] ms = keepFirstByName (filter (\<lambda>m. model_name m \<notin> seen) ms)"
proof (induction ms arbitrary: seen)
  case Nil
  show ?case by simp
next
  case (Cons m ms)
  show ?case
  proof (cases "model_name m \<in> seen")
    case True
    with Cons.IH[of seen] show ?thesis by simp
  next
    case False
    have "filter (\<lambda>x. model_name x \<noteq> model_name m) (filter (\<lambda>m. model_name m \<notin> seen) ms)
        = filter (\<lambda>x. model_name x \<notin> insert (model_name m) seen) ms"
      by (induction ms) auto
    with False Cons.IH[of "insert (model_name m) seen"]
         dedupLoop_acc[of "insert (model_name m) seen" "[m]" ms]
    show ?thesis by simp
  qed
qed

lemma deduplicateModels_keepFirst:
  "deduplicateModels models =
     keepFirstByName (filter (\<lambda>m. \<not> isRemoteModel (model_name m)) models
                      @ filter (\<lambda>m. isRemoteModel (model_name m)) models)"
  by (simp add: deduplicateModels_def dedupLoop_keepFirst)

lemma find_filter_same:
  "(\<And>x. P x \<Longrightarrow> Q x) \<Longrightarrow> find P (filter Q xs) = find P xs"
  by (induction xs) auto

lemma find_filter_none:
  "(\<And>x. P x \<Longrightarrow> \<not> Q x) \<Longrightarrow> find P (filter Q xs) = None"
  by (induction xs) auto

lemma find_append_cases:
  "find P (xs @ ys) = (case find P xs of None \<Rightarrow> find P ys | Some x \<Rightarrow> Some x)"
  by (induction xs) auto

lemma find_keepFirstByName:
  "find (\<lambda>m. model_name m = n) (keepFirstByName xs) = find (\<lambda>m. model_name m = n) xs"
proof (induction xs rule: keepFirstByName.induct)
  case 1
  show ?case by simp
next
  case (2 m ms)
  show ?case
  proof (cases "model_name m = n")
    case True
    then show ?thesis by simp
  next
    case False
    then have "find (\<lambda>x. model_name x = n) (filter (\<lambda>x. model_name x \<noteq> model_name m) ms)
             = find (\<lambda>x. model_name x = n) ms"
      by (intro find_filter_same) auto
    with False "2.IH" show ?thesis by simp
  qed
qed

lemma set_keepFirstByName: "set (keepFirstByName xs) \<subseteq> set xs"
  by (induction xs rule: keepFirstByName.induct) auto

lemma distinct_keepFirstByName: "distinct (map model_name (keepFirstByName xs))"
proof (induction xs rule: keepFirstByName.induct)
  case 1
  show ?case by simp
next
  case (2 m ms)
  have "model_name m \<notin> model_name ` set (keepFirstByName (filter (\<lambda>x. model_name x \<noteq> model_name m) ms))"
    using set_keepFirstByName[of "filter (\<lambda>x. model_name x \<noteq> model_name m) ms"] by auto
  with "2.IH" show ?case by simp
qed

lemma find_partition:
  "find (\<lambda>m. model_name m = n)
     (filter (\<lambda>m. \<not> isRemoteModel (model_name m)) xs @ filter (\<lambda>m. isRemoteModel (model_name m)) xs)
   = find (\<lambda>m. model_name m = n) xs"
proof (cases "isRemoteModel n")
  case True
  have a: "find (\<lambda>m. model_name m = n) (filter (\<lambda>m. \<not> isRemoteModel (model_name m)) xs) = None"
    by (rule find_filter_none) (use True in auto)
  have b: "find (\<lambda>m. model_name m = n) (filter (\<lambda>m. isRemoteModel (model_name m)) xs)
         = find (\<lambda>m. model_name m = n) xs"
    by (rule find_filter_same) (use True in auto)
  show ?thesis by (simp add: find_append_cases a b)
next
  case False
  have a: "find (\<lambda>m. model_name m = n) (filter (\<lambda>m. isRemoteModel (model_name m)) xs) = None"
    by (rule find_filter_none) (use False in auto)
  have b: "find (\<lambda>m. model_name m = n) (filter (\<lambda>m. \<not> isRemoteModel (model_name m)) xs)
         = find (\<lambda>m. model_name m = n) xs"
    by (rule find_filter_same) (use False in auto)
  show ?thesis by (simp add: find_append_cases a b split: option.splits)
qed

text \<open>
  Claim C6, as the code has it. The unified list is, deduplicated by name with the first
  entry of each name kept: the local models whose names are not allowlisted, then the
  local models whose names are allowlisted, then the allowlist-filtered remote models.
  Its names are distinct, and every name resolves to the entry it has first in the local
  list followed by the filtered remote list, so a name present in both sources resolves
  to the local entry. When no local model has an allowlisted name the list is the local
  list followed by the filtered remote list, deduplicated. Local \<^verbatim>\<open>[{name:"dup"}]\<close> with
  remote \<^verbatim>\<open>[{name:"dup"}]\<close> gives the one local entry; local \<^verbatim>\<open>[{name:"llama3"}]\<close> with
  remote \<^verbatim>\<open>[{name:"gpt-oss:120b"}]\<close> gives both, local first.
\<close>

theorem getUnifiedModels_local_first:
  "getUnifiedModels localTags remoteTags =
     keepFirstByName
       (filter (\<lambda>m. \<not> isRemoteModel (model_name m)) (getLocalModels localTags)
        @ filter (\<lambda>m. isRemoteModel (model_name m)) (getLocalModels localTags)
        @ getRemoteModels remoteTags)
   \<and> distinct (map model_name (getUnifiedModels localTags remoteTags))
   \<and> find (\<lambda>m. model_name m = n) (getUnifiedModels localTags remoteTags) =
       find (\<lambda>m. model_name m = n) (getLocalModels localTags @ getRemoteModels remoteTags)
   \<and> ((\<forall>m \<in> set (getLocalModels localTags). \<not> isRemoteModel (model_name m)) \<longrightarrow>
        getUnifiedModels localTags remoteTags =
          keepFirstByName (getLocalModels localTags @ getRemoteModels remoteTags))
   \<and> getRemoteModels remoteTags =
       filter (\<lambda>m. isRemoteModel (model_name m)) (modelsOrEmpty remoteTags)
   \<and> getUnifiedModels
        (TagsBody (Some [\<lparr>model_name = ''dup'', modified_at = Some ''local'', digest = None\<rparr>]))
        (TagsBody (Some [\<lparr>model_name = ''dup'', modified_at = Some ''remote'', digest = None\<rparr>]))
       = [\<lparr>model_name = ''dup'', modified_at = Some ''local'', digest = None\<rparr>]
   \<and> getUnifiedModels
        (TagsBody (Some [\<lparr>model_name = ''llama3'', modified_at = None, digest = None\<rparr>]))
        (TagsBody (Some [\<lparr>model_name = ''gpt-oss:120b'', modified_at = None, digest = None\<rparr>]))
       = [\<lparr>model_name = ''llama3'', modified_at = None, digest = None\<rparr>,
          \<lparr>model_name = ''gpt-oss:120b'', modified_at = None, digest = None\<rparr>]"
proof -
  let ?L = "getLocalModels localTags" and ?R = "getRemoteModels remoteTags"
  have r: "filter (\<lambda>m. isRemoteModel (model_name m)) ?R = ?R"
          "filter (\<lambda>m. \<not> isRemoteModel (model_name m)) ?R = []"
    by (simp_all add: getRemoteModels_def isRemoteModel_def)
  have c1: "getUnifiedModels localTags remoteTags =
     keepFirstByName
       (filter (\<lambda>m. \<not> isRemoteModel (model_name m)) ?L
        @ filter (\<lambda>m. isRemoteModel (model_name m)) ?L @ ?R)"
    by (simp add: getUnifiedModels_def deduplicateModels_keepFirst r)
  have c2: "distinct (map model_name (getUnifiedModels localTags remoteTags))"
    unfolding c1 by (rule distinct_keepFirstByName)
  have c3: "find (\<lambda>m. model_name m = n) (getUnifiedModels localTags remoteTags) =
       find (\<lambda>m. model_name m = n) (?L @ ?R)"
    unfolding getUnifiedModels_def deduplicateModels_keepFirst
    by (simp only: find_keepFirstByName find_partition)
  have c4: "(\<forall>m \<in> set ?L. \<not> isRemoteModel (model_name m)) \<longrightarrow>
        getUnifiedModels localTags remoteTags = keepFirstByName (?L @ ?R)"
  proof
    assume a: "\<forall>m \<in> set ?L. \<not> isRemoteModel (model_name m)"
    then have "filter (\<lambda>m. \<not> isRemoteModel (model_name m)) ?L = ?L"
          and "filter (\<lambda>m. isRemoteModel (model_name m)) ?L = []"
      by (simp_all add: filter_id_conv filter_empty_conv)
    then show "getUnifiedModels localTags remoteTags = keepFirstByName (?L @ ?R)"
      unfolding c1 by simp
  qed
  have c5: "?R = filter (\<lambda>m. isRemoteModel (model_name m)) (modelsOrEmpty remoteTags)"
    by (simp add: getRemoteModels_def isRemoteModel_def)
  have c6: "getUnifiedModels
        (TagsBody (Some [\<lparr>model_name = ''dup'', modified_at = Some ''local'', digest = None\<rparr>]))
        (TagsBody (Some [\<lparr>model_name = ''dup'', modified_at = Some ''remote'', digest = None\<rparr>]))
       = [\<lparr>model_name = ''dup'', modified_at = Some ''local'', digest = None\<rparr>]"
    by (simp add: getUnifiedModels_def deduplicateModels_def getLocalModels_def getRemoteModels_def
                  modelsOrEmpty_def isRemoteModel_def REMOTE_MODELS_def)
  have c7: "getUnifiedModels
        (TagsBody (Some [\<lparr>model_name = ''llama3'', modified_at = None, digest = None\<rparr>]))
        (TagsBody (Some [\<lparr>model_name = ''gpt-oss:120b'', modified_at = None, digest = None\<rparr>]))
       = [\<lparr>model_name = ''llama3'', modified_at = None, digest = None\<rparr>,
          \<lparr>model_name = ''gpt-oss:120b'', modified_at = None, digest = None\<rparr>]"
    by (simp add: getUnifiedModels_def deduplicateModels_def getLocalModels_def getRemoteModels_def
                  modelsOrEmpty_def isRemoteModel_def REMOTE_MODELS_def)
  show ?thesis
    by (intro conjI) (rule c1 c2 c3 c4 c5 c6 c7)+
qed

text \<open>
  Claim C6, at a local list with a repeated name and a remote list with one allowlisted
  and one other model: no local name is allowlisted, and the result is the first local
  entry followed by the allowlisted remote one.
\<close>

theorem getUnifiedModels_local_first_witness:
  "getUnifiedModels
     (TagsBody (Some [\<lparr>model_name = ''llama3'', modified_at = Some ''a'', digest = None\<rparr>,
                      \<lparr>model_name = ''llama3'', modified_at = Some ''b'', digest = None\<rparr>]))
     (TagsBody (Some [\<lparr>model_name = ''gpt-oss:20b'', modified_at = None, digest = None\<rparr>,
                      \<lparr>model_name = ''mistral'', modified_at = None, digest = None\<rparr>]))
   = [\<lparr>model_name = ''llama3'', modified_at = Some ''a'', digest = None\<rparr>,
      \<lparr>model_name = ''gpt-oss:20b'', modified_at = None, digest = None\<rparr>]"
proof -
  let ?L = "TagsBody (Some [\<lparr>model_name = ''llama3'', modified_at = Some ''a'', digest = None\<rparr>,
                      \<lparr>model_name = ''llama3'', modified_at = Some ''b'', digest = None\<rparr>])"
  let ?R = "TagsBody (Some [\<lparr>model_name = ''gpt-oss:20b'', modified_at = None, digest = None\<rparr>,
                      \<lparr>model_name = ''mistral'', modified_at = None, digest = None\<rparr>])"
  have l: "getLocalModels ?L = [\<lparr>model_name = ''llama3'', modified_at = Some ''a'', digest = None\<rparr>,
                      \<lparr>model_name = ''llama3'', modified_at = Some ''b'', digest = None\<rparr>]"
    by (simp add: getLocalModels_def modelsOrEmpty_def)
  have r: "getRemoteModels ?R = [\<lparr>model_name = ''gpt-oss:20b'', modified_at = None, digest = None\<rparr>]"
    by (simp add: getRemoteModels_def modelsOrEmpty_def REMOTE_MODELS_def)
  have p: "\<forall>m \<in> set (getLocalModels ?L). \<not> isRemoteModel (model_name m)"
    by (simp add: l isRemoteModel_def REMOTE_MODELS_def)
  note t = getUnifiedModels_local_first[of ?L ?R "''llama3''", THEN conjunct2, THEN conjunct2,
             THEN conjunct2, THEN conjunct1, THEN mp, OF p]
  show ?thesis
    unfolding t l r by simp
qed

text \<open>
  Claim C6 as stated fails on the order: with the local models \<open>gpt-oss:20b\<close>, \<open>llama3\<close>
  (in this order) and no remote model, the unified list starts with \<open>llama3\<close>, while the
  local list followed by the remote one, deduplicated, starts with \<open>gpt-oss:20b\<close>.
\<close>

theorem getUnifiedModels_order_counterexample:
  "getUnifiedModels
     (TagsBody (Some [\<lparr>model_name = ''gpt-oss:20b'', modified_at = None, digest = None\<rparr>,
                      \<lparr>model_name = ''llama3'', modified_at = None, digest = None\<rparr>]))
     (TagsBody (Some []))
   = [\<lparr>model_name = ''llama3'', modified_at = None, digest = None\<rparr>,
      \<lparr>model_name = ''gpt-oss:20b'', modified_at = None, digest = None\<rparr>]
   \<and> keepFirstByName
       (getLocalModels
          (TagsBody (Some [\<lparr>model_name = ''gpt-oss:20b'', modified_at = None, digest = None\<rparr>,
                           \<lparr>model_name = ''llama3'', modified_at = None, digest = None\<rparr>]))
        @ getRemoteModels (TagsBody (Some [])))
   = [\<lparr>model_name = ''gpt-oss:20b'', modified_at = None, digest = None\<rparr>,
      \<lparr>model_name = ''llama3'', modified_at = None, digest = None\<rparr>]"
  by (simp add: getUnifiedModels_def deduplicateModels_def getLocalModels_def getRemoteModels_def
                modelsOrEmpty_def isRemoteModel_def REMOTE_MODELS_def)

subsection \<open>The non-streaming envelope\<close>

lemma handleNonStreamingChat_envelope:
  assumes "handleNonStreamingChat env ollamaRequest model originalRequest = ChatCompletion envelope"
  shows "\<exists>r ollamaResponse.
           chatCompletion env model ollamaRequest = Inr r \<and> reply_ok r
           \<and> reply_json r = Inr ollamaResponse
           \<and> cr_choices envelope =
               [\<lparr>ch_index = 0,
                 ch_message = \<lparr>am_role = ''assistant'',
                               am_content = normalizeContent originalRequest ollamaResponse\<rparr>,
                 ch_finish_reason = Some ''stop''\<rparr>]"
  using assms
  by (auto simp: handleNonStreamingChat_def internalError_def createErrorResponse_def
           split: sum.splits if_splits option.splits)

lemma normalizeContent_nonempty:
  "req_tools originalRequest = None \<Longrightarrow> normalizeContent originalRequest ollamaResponse \<noteq> []"
  by (simp add: normalizeContent_def Let_def)

lemma normalizeContent_empty:
  "backendContent ollamaResponse = [] \<Longrightarrow>
   normalizeContent originalRequest ollamaResponse =
     (if isJsonObjectFormat originalRequest then ''{\"response\":\"\"}''
      else if req_tools originalRequest = None then ''Response received from model.''
      else [])"
  by (simp add: normalizeContent_def Let_def JSON_parse_empty stringifyResponse_empty)

lemma normalizeContent_nonblank:
  "\<not> isJsonObjectFormat originalRequest \<Longrightarrow> backendContent ollamaResponse \<noteq> [] \<Longrightarrow>
   normalizeContent originalRequest ollamaResponse = backendContent ollamaResponse"
  by (simp add: normalizeContent_def Let_def)

text \<open>
  Claim C4, as the code has it. Whenever the non-streaming handler returns an envelope,
  its one choice has role \<open>assistant\<close> and finish reason \<open>stop\<close>, and its content is not
  empty when the request has no \<open>tools\<close>. When the backend's content is missing or the
  empty string, the content is the fixed placeholder if the request has no \<open>tools\<close> and
  did not ask for \<open>json_object\<close>, and it is \<^verbatim>\<open>{"response":""}\<close> if the request asked for
  \<open>json_object\<close>. Unless \<open>json_object\<close> was asked for, content that has a character
  other than white space is returned as the backend gave it.
\<close>

theorem nonstreaming_envelope_placeholder:
  assumes "handleNonStreamingChat env ollamaRequest model originalRequest = ChatCompletion envelope"
  shows "\<exists>choice. cr_choices envelope = [choice]
           \<and> am_role (ch_message choice) = ''assistant''
           \<and> ch_finish_reason choice = Some ''stop''
           \<and> (req_tools originalRequest = None \<longrightarrow> am_content (ch_message choice) \<noteq> [])
           \<and> (\<forall>r ollamaResponse.
                 chatCompletion env model ollamaRequest = Inr r \<and> reply_json r = Inr ollamaResponse
                 \<longrightarrow>
                 (backendContent ollamaResponse = [] \<and> \<not> isJsonObjectFormat originalRequest
                  \<and> req_tools originalRequest = None \<longrightarrow>
                    am_content (ch_message choice) = ''Response received from model.'')
                 \<and> (backendContent ollamaResponse = [] \<and> isJsonObjectFormat originalRequest \<longrightarrow>
                    am_content (ch_message choice) = ''{\"response\":\"\"}'')
                 \<and> ((\<exists>c \<in> set (backendContent ollamaResponse). \<not> isJsWhitespace c)
                    \<and> \<not> isJsonObjectFormat originalRequest \<longrightarrow>
                    am_content (ch_message choice) = backendContent ollamaResponse))"
proof -
  from handleNonStreamingChat_envelope[OF assms] obtain r ollamaResponse where
    c: "chatCompletion env model ollamaRequest = Inr r" and
    j: "reply_json r = Inr ollamaResponse" and
    ch: "cr_choices envelope =
               [\<lparr>ch_index = 0,
                 ch_message = \<lparr>am_role = ''assistant'',
                               am_content = normalizeContent originalRequest ollamaResponse\<rparr>,
                 ch_finish_reason = Some ''stop''\<rparr>]"
    by blast
  have nb: "backendContent ollamaResponse \<noteq> []"
    if "\<exists>c \<in> set (backendContent ollamaResponse). \<not> isJsWhitespace c"
    using that by auto
  show ?thesis
    using ch c j normalizeContent_nonempty[of originalRequest ollamaResponse]
          normalizeContent_empty[of ollamaResponse originalRequest]
          normalizeContent_nonblank[of originalRequest ollamaResponse] nb
    by (intro exI[of _ "\<lparr>ch_index = 0,
                 ch_message = \<lparr>am_role = ''assistant'',
                               am_content = normalizeContent originalRequest ollamaResponse\<rparr>,
                 ch_finish_reason = Some ''stop''\<rparr>"]) auto
qed

text \<open>
  Claim C4, at three calls: a plain chat turn to which the backend returns the empty
  string gets the placeholder; the same turn asking for \<open>json_object\<close> gets
  \<^verbatim>\<open>{"response":""}\<close>; a plain chat turn to which the backend returns \<open>hello\<close> gets
  \<open>hello\<close>.
\<close>

theorem nonstreaming_envelope_placeholder_witness:
  "(\<exists>envelope choice.
      handleNonStreamingChat (scenario True (completionReply []))
        (buildOllamaRequest (userTurn None) ''llama3'' False) ''llama3'' (userTurn None)
        = ChatCompletion envelope
      \<and> cr_choices envelope = [choice]
      \<and> am_role (ch_message choice) = ''assistant''
      \<and> ch_finish_reason choice = Some ''stop''
      \<and> am_content (ch_message choice) \<noteq> []
      \<and> am_content (ch_message choice) = ''Response received from model.'')
   \<and> (\<exists>envelope choice.
      handleNonStreamingChat (scenario True (completionReply []))
        (buildOllamaRequest jsonObjectTurn ''llama3'' False) ''llama3'' jsonObjectTurn
        = ChatCompletion envelope
      \<and> cr_choices envelope = [choice]
      \<and> am_content (ch_message choice) = ''{\"response\":\"\"}'')
   \<and> (\<exists>envelope choice.
      handleNonStreamingChat (scenario True (completionReply ''hello''))
        (buildOllamaRequest (userTurn None) ''llama3'' False) ''llama3'' (userTurn None)
        = ChatCompletion envelope
      \<and> cr_choices envelope = [choice]
      \<and> am_content (ch_message choice) = ''hello'')"
proof -
  let ?R = "\<lambda>c. \<lparr>resp_message = Some \<lparr>rmsg_content = Some c\<rparr>,
                  resp_prompt_eval_count = Some 3, resp_eval_count = Some 5\<rparr>"
  have b: "backendContent (?R c) = c" for c
    by (simp add: backendContent_def)
  have t: "req_tools (userTurn None) = None" "\<not> isJsonObjectFormat (userTurn None)"
    by (simp_all add: userTurn_fields isJsonObjectFormat_def)
  have nw: "\<exists>c \<in> set (backendContent (?R ''hello'')). \<not> isJsWhitespace c"
    by (simp add: b isJsWhitespace_def)
  have cj: "chatCompletion (scenario True (completionReply c)) ''llama3'' rq = Inr (completionReply c)
            \<and> reply_json (completionReply c) = Inr (?R c)" for c rq
    by (simp add: chatCompletion_scenario completionReply_fields)
  have A: "\<exists>envelope choice.
      handleNonStreamingChat (scenario True (completionReply []))
        (buildOllamaRequest (userTurn None) ''llama3'' False) ''llama3'' (userTurn None)
        = ChatCompletion envelope
      \<and> cr_choices envelope = [choice]
      \<and> am_role (ch_message choice) = ''assistant''
      \<and> ch_finish_reason choice = Some ''stop''
      \<and> am_content (ch_message choice) \<noteq> []
      \<and> am_content (ch_message choice) = ''Response received from model.''"
  proof -
    note h = handleNonStreamingChat_scenario
               [of True "[]" "buildOllamaRequest (userTurn None) ''llama3'' False" "userTurn None"]
    from nonstreaming_envelope_placeholder[OF h] obtain choice where
      w: "cr_choices \<lparr>cr_object = ''chat.completion'', cr_model = ''llama3'',
            cr_system_fingerprint = ''fp_ollama_proxy'',
            cr_choices =
              [\<lparr>ch_index = 0,
                ch_message = \<lparr>am_role = ''assistant'',
                              am_content = normalizeContent (userTurn None) (?R [])\<rparr>,
                ch_finish_reason = Some ''stop''\<rparr>],
            cr_usage = \<lparr>prompt_tokens = 3, completion_tokens = 5, total_tokens = 8\<rparr>\<rparr> = [choice]
          \<and> am_role (ch_message choice) = ''assistant''
          \<and> ch_finish_reason choice = Some ''stop''
          \<and> (req_tools (userTurn None) = None \<longrightarrow> am_content (ch_message choice) \<noteq> [])
          \<and> (\<forall>r ollamaResponse.
                 chatCompletion (scenario True (completionReply []))
                   ''llama3'' (buildOllamaRequest (userTurn None) ''llama3'' False) = Inr r
                 \<and> reply_json r = Inr ollamaResponse
                 \<longrightarrow>
                 (backendContent ollamaResponse = [] \<and> \<not> isJsonObjectFormat (userTurn None)
                  \<and> req_tools (userTurn None) = None \<longrightarrow>
                    am_content (ch_message choice) = ''Response received from model.'')
                 \<and> (backendContent ollamaResponse = [] \<and> isJsonObjectFormat (userTurn None) \<longrightarrow>
                    am_content (ch_message choice) = ''{\"response\":\"\"}'')
                 \<and> ((\<exists>c \<in> set (backendContent ollamaResponse). \<not> isJsWhitespace c)
                    \<and> \<not> isJsonObjectFormat (userTurn None) \<longrightarrow>
                    am_content (ch_message choice) = backendContent ollamaResponse))" ..
    note 1 = w[THEN conjunct1]
    note 2 = w[THEN conjunct2, THEN conjunct1]
    note 3 = w[THEN conjunct2, THEN conjunct2, THEN conjunct1]
    note 4 = w[THEN conjunct2, THEN conjunct2, THEN conjunct2, THEN conjunct1, THEN mp, OF t(1)]
    note 5 = w[THEN conjunct2, THEN conjunct2, THEN conjunct2, THEN conjunct2, rule_format,
               OF cj, THEN conjunct1, THEN mp, OF conjI[OF b conjI[OF t(2) t(1)]]]
    from h 1 2 3 4 5 show ?thesis by (intro exI conjI)
  qed
  have B: "\<exists>envelope choice.
      handleNonStreamingChat (scenario True (completionReply []))
        (buildOllamaRequest jsonObjectTurn ''llama3'' False) ''llama3'' jsonObjectTurn
        = ChatCompletion envelope
      \<and> cr_choices envelope = [choice]
      \<and> am_content (ch_message choice) = ''{\"response\":\"\"}''"
  proof -
    note h = handleNonStreamingChat_scenario
               [of True "[]" "buildOllamaRequest jsonObjectTurn ''llama3'' False" jsonObjectTurn]
    from nonstreaming_envelope_placeholder[OF h] obtain choice where
      w: "cr_choices \<lparr>cr_object = ''chat.completion'', cr_model = ''llama3'',
            cr_system_fingerprint = ''fp_ollama_proxy'',
            cr_choices =
              [\<lparr>ch_index = 0,
                ch_message = \<lparr>am_role = ''assistant'',
                              am_content = normalizeContent jsonObjectTurn (?R [])\<rparr>,
                ch_finish_reason = Some ''stop''\<rparr>],
            cr_usage = \<lparr>prompt_tokens = 3, completion_tokens = 5, total_tokens = 8\<rparr>\<rparr> = [choice]
          \<and> am_role (ch_message choice) = ''assistant''
          \<and> ch_finish_reason choice = Some ''stop''
          \<and> (req_tools jsonObjectTurn = None \<longrightarrow> am_content (ch_message choice) \<noteq> [])
          \<and> (\<forall>r ollamaResponse.
                 chatCompletion (scenario True (completionReply []))
                   ''llama3'' (buildOllamaRequest jsonObjectTurn ''llama3'' False) = Inr r
                 \<and> reply_json r = Inr ollamaResponse
                 \<longrightarrow>
                 (backendContent ollamaResponse = [] \<and> \<not> isJsonObjectFormat jsonObjectTurn
                  \<and> req_tools jsonObjectTurn = None \<longrightarrow>
                    am_content (ch_message choice) = ''Response received from model.'')
                 \<and> (backendContent ollamaResponse = [] \<and> isJsonObjectFormat jsonObjectTurn \<longrightarrow>
                    am_content (ch_message choice) = ''{\"response\":\"\"}'')
                 \<and> ((\<exists>c \<in> set (backendContent ollamaResponse). \<not> isJsWhitespace c)
                    \<and> \<not> isJsonObjectFormat jsonObjectTurn \<longrightarrow>
                    am_content (ch_message choice) = backendContent ollamaResponse))" ..
    note 1 = w[THEN conjunct1]
    note 5 = w[THEN conjunct2, THEN conjunct2, THEN conjunct2, THEN conjunct2, rule_format,
               OF cj, THEN conjunct2, THEN conjunct1, THEN mp,
               OF conjI[OF b jsonObjectTurn_fields(3)]]
    from h 1 5 show ?thesis by (intro exI conjI)
  qed
  have C: "\<exists>envelope choice.
      handleNonStreamingChat (scenario True (completionReply ''hello''))
        (buildOllamaRequest (userTurn None) ''llama3'' False) ''llama3'' (userTurn None)
        = ChatCompletion envelope
      \<and> cr_choices envelope = [choice]
      \<and> am_content (ch_message choice) = ''hello''"
  proof -
    note h = handleNonStreamingChat_scenario
               [of True "''hello''" "buildOllamaRequest (userTurn None) ''llama3'' False" "userTurn None"]
    from nonstreaming_envelope_placeholder[OF h] obtain choice where
      w: "cr_choices \<lparr>cr_object = ''chat.completion'', cr_model = ''llama3'',
            cr_system_fingerprint = ''fp_ollama_proxy'',
            cr_choices =
              [\<lparr>ch_index = 0,
                ch_message = \<lparr>am_role = ''assistant'',
                              am_content = normalizeContent (userTurn None) (?R ''hello'')\<rparr>,
                ch_finish_reason = Some ''stop''\<rparr>],
            cr_usage = \<lparr>prompt_tokens = 3, completion_tokens = 5, total_tokens = 8\<rparr>\<rparr> = [choice]
          \<and> am_role (ch_message choice) = ''assistant''
          \<and> ch_finish_reason choice = Some ''stop''
          \<and> (req_tools (userTurn None) = None \<longrightarrow> am_content (ch_message choice) \<noteq> [])
          \<and> (\<forall>r ollamaResponse.
                 chatCompletion (scenario True (completionReply ''hello''))
                   ''llama3'' (buildOllamaRequest (userTurn None) ''llama3'' False) = Inr r
                 \<and> reply_json r = Inr ollamaResponse
                 \<longrightarrow>
                 (backendContent ollamaResponse = [] \<and> \<not> isJsonObjectFormat (userTurn None)
                  \<and> req_tools (userTurn None) = None \<longrightarrow>
                    am_content (ch_message choice) = ''Response received from model.'')
                 \<and> (backendContent ollamaResponse = [] \<and> isJsonObjectFormat (userTurn None) \<longrightarrow>
                    am_content (ch_message choice) = ''{\"response\":\"\"}'')
                 \<and> ((\<exists>c \<in> set (backendContent ollamaResponse). \<not> isJsWhitespace c)
                    \<and> \<not> isJsonObjectFormat (userTurn None) \<longrightarrow>
                    am_content (ch_message choice) = backendContent ollamaResponse))" ..
    note 1 = w[THEN conjunct1]
    note 5 = w[THEN conjunct2, THEN conjunct2, THEN conjunct2, THEN conjunct2, rule_format,
               OF cj, THEN conjunct2, THEN conjunct2, THEN mp, OF conjI[OF nw t(2)]]
    from 5 b[of "''hello''"] have 6: "am_content (ch_message choice) = ''hello''" by simp
    from h 1 6 show ?thesis by (intro exI conjI)
  qed
  from A B C show ?thesis by (intro conjI)
qed

text \<open>
  Claim C4 as stated fails when \<open>json_object\<close> was asked for: a valid turn without
  \<open>tools\<close>, sent with \<^verbatim>\<open>stream: false\<close>, to which the backend returns the empty string,
  gets \<^verbatim>\<open>{"response":""}\<close> as the envelope's content, not the placeholder.
\<close>

theorem empty_content_wrapped_under_json_object_counterexample:
  "handleChatCompletions (scenario True (completionReply []))
     \<lparr>authorization = None, json_body = Inr jsonObjectTurn\<rparr>
   = ChatCompletion
       \<lparr>cr_object = ''chat.completion'', cr_model = ''llama3'',
        cr_system_fingerprint = ''fp_ollama_proxy'',
        cr_choices =
          [\<lparr>ch_index = 0,
            ch_message = \<lparr>am_role = ''assistant'', am_content = ''{\"response\":\"\"}''\<rparr>,
            ch_finish_reason = Some ''stop''\<rparr>],
        cr_usage = \<lparr>prompt_tokens = 3, completion_tokens = 5, total_tokens = 8\<rparr>\<rparr>"
  by (simp add: dispatch_jsonObjectTurn handleNonStreamingChat_scenario normalizeContent_empty
                backendContent_def jsonObjectTurn_fields)


text \<open>
  Content of white space only is not replaced: the handler tests \<^verbatim>\<open>!content\<close>, which
  holds of the empty string alone, where the requirements file of the repository
  (\<^verbatim>\<open>OpenAI_requirements.md\<close>, \<open>Empty content normalization\<close>) asks for content of
  white space only to be normalised. A valid turn without \<open>tools\<close>, sent with
  \<^verbatim>\<open>stream: false\<close>, to which the backend returns three spaces, gets the three spaces.
\<close>

lemma whitespace_content_not_normalised:
  "handleChatCompletions (scenario True (completionReply ''   ''))
     \<lparr>authorization = None, json_body = Inr (userTurn (Some False))\<rparr>
   = ChatCompletion
       \<lparr>cr_object = ''chat.completion'', cr_model = ''llama3'',
        cr_system_fingerprint = ''fp_ollama_proxy'',
        cr_choices =
          [\<lparr>ch_index = 0,
            ch_message = \<lparr>am_role = ''assistant'', am_content = ''   ''\<rparr>,
            ch_finish_reason = Some ''stop''\<rparr>],
        cr_usage = \<lparr>prompt_tokens = 3, completion_tokens = 5, total_tokens = 8\<rparr>\<rparr>"
  by (simp add: dispatch_userTurn handleNonStreamingChat_scenario normalizeContent_def
                backendContent_def isJsonObjectFormat_def userTurn_fields Let_def)



subsection \<open>The dispatcher\<close>

lemma validateRequest_messages_missing:
  assumes "req_model body = Some m" "m \<noteq> []"
      and "req_messages body = None \<or> req_messages body = Some []"
  shows "validateRequest body =
           Some (ErrorResponse 400
                  \<lparr>err_message = ''Missing required parameter: messages'',
                   err_type = ''invalid_request_error'', err_param = Some ''messages''\<rparr>)"
  using assms by (auto simp: validateRequest_def createErrorResponse_def)

text \<open>
  Claim C9, as the code has it. Of a request that passes the \<open>Authorization\<close> check,
  whose body parses and names a model: when \<open>messages\<close> is absent, not an array or
  empty, the answer is HTTP 400 with \<^verbatim>\<open>error.param == 'messages'\<close>; when the body passes
  \<open>validateRequest\<close> and the model is not among the names of the unified model list, the
  answer is HTTP 404 with the message \<^verbatim>\<open>The model '<name>' does not exist\<close>.
\<close>

theorem chat_request_rejections:
  assumes "validateAuth (authorization req) = None"
      and "json_body req = Inr body"
      and "req_model body = Some m" and "m \<noteq> []"
  shows "(req_messages body = None \<or> req_messages body = Some [] \<longrightarrow>
            handleChatCompletions env req =
              ErrorResponse 400
                \<lparr>err_message = ''Missing required parameter: messages'',
                 err_type = ''invalid_request_error'', err_param = Some ''messages''\<rparr>)
       \<and> (validateRequest body = None
            \<and> m \<notin> set (map model_name (getUnifiedModels (local_tags env) (remote_tags env))) \<longrightarrow>
            handleChatCompletions env req =
              ErrorResponse 404
                \<lparr>err_message = ''The model '' @ [CHR 0x27] @ m @ [CHR 0x27] @ '' does not exist'',
                 err_type = ''invalid_request_error'', err_param = Some ''model''\<rparr>)"
proof (intro conjI impI)
  assume "req_messages body = None \<or> req_messages body = Some []"
  from validateRequest_messages_missing[OF assms(3,4) this] assms(1,2)
  show "handleChatCompletions env req =
              ErrorResponse 400
                \<lparr>err_message = ''Missing required parameter: messages'',
                 err_type = ''invalid_request_error'', err_param = Some ''messages''\<rparr>"
    by (simp add: handleChatCompletions_def)
next
  assume "validateRequest body = None
            \<and> m \<notin> set (map model_name (getUnifiedModels (local_tags env) (remote_tags env)))"
  with assms show "handleChatCompletions env req =
              ErrorResponse 404
                \<lparr>err_message = ''The model '' @ [CHR 0x27] @ m @ [CHR 0x27] @ '' does not exist'',
                 err_type = ''invalid_request_error'', err_param = Some ''model''\<rparr>"
    by (simp add: handleChatCompletions_def Let_def validateModel_def availableModelIds_def
                  createErrorResponse_def)
qed

text \<open>
  Claim C9, at a body with a model and no messages (400, \<open>messages\<close>) and at a valid
  turn naming \<open>mistral\<close>, which the deployment does not list (404).
\<close>

theorem chat_request_rejections_witness:
  "handleChatCompletions (scenario True (completionReply ''hello''))
     \<lparr>authorization = Some ''Bearer any-key'',
      json_body = Inr (emptyBody\<lparr>req_model := Some ''llama3''\<rparr>)\<rparr>
   = ErrorResponse 400
       \<lparr>err_message = ''Missing required parameter: messages'',
        err_type = ''invalid_request_error'', err_param = Some ''messages''\<rparr>
   \<and> handleChatCompletions (scenario True (completionReply ''hello''))
     \<lparr>authorization = None,
      json_body = Inr ((userTurn None)\<lparr>req_model := Some ''mistral''\<rparr>)\<rparr>
   = ErrorResponse 404
       \<lparr>err_message = ''The model '' @ [CHR 0x27] @ ''mistral'' @ [CHR 0x27] @ '' does not exist'',
        err_type = ''invalid_request_error'', err_param = Some ''model''\<rparr>"
proof -
  let ?env = "scenario True (completionReply ''hello'')"
  let ?b1 = "emptyBody\<lparr>req_model := Some ''llama3''\<rparr>"
  let ?r1 = "\<lparr>authorization = Some ''Bearer any-key'', json_body = Inr ?b1\<rparr>"
  let ?b2 = "(userTurn None)\<lparr>req_model := Some ''mistral''\<rparr>"
  let ?r2 = "\<lparr>authorization = None, json_body = Inr ?b2\<rparr>"
  have a1: "validateAuth (authorization ?r1) = None"
    by (simp add: validateAuth_examples)
  have a2: "validateAuth (authorization ?r2) = None"
    by (simp add: validateAuth_examples)
  have j1: "json_body ?r1 = Inr ?b1" and j2: "json_body ?r2 = Inr ?b2" by simp_all
  have m1: "req_model ?b1 = Some ''llama3''" and m2: "req_model ?b2 = Some ''mistral''"
    by simp_all
  have n1: "''llama3'' \<noteq> []" and n2: "''mistral'' \<noteq> []" by simp_all
  have g1: "req_messages ?b1 = None \<or> req_messages ?b1 = Some []"
    by (simp add: emptyBody_def)
  have v2: "validateRequest ?b2 = None"
    by (simp add: validateRequest_def userTurn_def emptyBody_def validateMessage_def Let_def
                  isTruthyContent_def convertContentToString_def)
  have g2: "validateRequest ?b2 = None
            \<and> ''mistral'' \<notin> set (map model_name (getUnifiedModels (local_tags ?env) (remote_tags ?env)))"
    using v2 availableModelIds_scenario[of True "completionReply ''hello''"]
    by (simp add: availableModelIds_def)
  from chat_request_rejections[OF a1 j1 m1 n1, of ?env, THEN conjunct1, THEN mp, OF g1]
       chat_request_rejections[OF a2 j2 m2 n2, of ?env, THEN conjunct2, THEN mp, OF g2]
  show ?thesis by (intro conjI)
qed

text \<open>
  Claim C9 as stated fails when the model is missing too: the body \<^verbatim>\<open>{}\<close> has no
  \<open>messages\<close>, and the answer is HTTP 400 with \<^verbatim>\<open>error.param == 'model'\<close>.
\<close>

theorem missing_model_reported_first_counterexample:
  "handleChatCompletions (scenario True (completionReply ''hello''))
     \<lparr>authorization = None, json_body = Inr emptyBody\<rparr>
   = ErrorResponse 400
       \<lparr>err_message = ''Missing required parameter: model'',
        err_type = ''invalid_request_error'', err_param = Some ''model''\<rparr>"
  by (simp add: handleChatCompletions_def validateAuth_examples validateRequest_def emptyBody_def
                createErrorResponse_def)

lemma validation_never_streams:
  "validateAuth h \<noteq> Some (EventStream out)"
  "validateRequest body \<noteq> Some (EventStream out)"
  "validateParameters body \<noteq> Some (EventStream out)"
  "internalError m \<noteq> EventStream out"
  "createErrorResponse a b c d \<noteq> EventStream out"
proof -
  show "validateAuth h \<noteq> Some (EventStream out)"
    by (auto simp: validateAuth_def createErrorResponse_def split: option.splits)
  have vm: "validateMessage i msg \<noteq> Some (EventStream out)" for i msg
    by (auto simp: validateMessage_def createErrorResponse_def Let_def)
  have vms: "validateMessages i ms \<noteq> Some (EventStream out)" for i ms
    by (induction ms arbitrary: i) (auto simp: vm split: option.splits)
  show "validateRequest body \<noteq> Some (EventStream out)"
    using vms by (auto simp: validateRequest_def createErrorResponse_def split: option.splits)
  show "validateParameters body \<noteq> Some (EventStream out)"
    by (auto simp: validateParameters_def createErrorResponse_def)
  show "internalError m \<noteq> EventStream out"
    by (simp add: internalError_def createErrorResponse_def)
  show "createErrorResponse a b c d \<noteq> EventStream out"
    by (simp add: createErrorResponse_def)
qed

lemma handleNonStreamingChat_never_streams:
  "handleNonStreamingChat env ollamaRequest model originalRequest \<noteq> EventStream out"
  by (auto simp: handleNonStreamingChat_def validation_never_streams split: sum.splits option.splits)

text \<open>
  Claim C10. Of a request that reaches the dispatch (it passes the \<open>Authorization\<close>
  check, its body parses and passes \<open>validateRequest\<close>, \<open>validateModel\<close> and
  \<open>validateParameters\<close>), the effective streaming flag is the conjunction of its \<open>stream\<close>
  field and \<open>OLLAMA_STREAM\<close>: when both are true the streaming handler answers, called
  with a backend request whose \<open>stream\<close> is true, and the answer is an event stream;
  otherwise the non-streaming handler answers, called with a backend request whose
  \<open>stream\<close> is false, and the answer is a chat-completion envelope when the backend
  answers 2xx with a JSON body. No request at all is answered by an event stream unless
  \<open>OLLAMA_STREAM\<close> is true and its \<open>stream\<close> field is true.
\<close>

theorem effective_stream_is_conjunction:
  "(\<forall>body m. validateAuth (authorization req) = None \<and> json_body req = Inr body
        \<and> validateRequest body = None \<and> req_model body = Some m
        \<and> validateModel m (availableModelIds (local_tags env) (remote_tags env))
        \<and> validateParameters body = None \<longrightarrow>
        handleChatCompletions env req =
          (if req_stream body = Some True \<and> OLLAMA_STREAM env
           then handleStreamingChat env (buildOllamaRequest body m True) m body
           else handleNonStreamingChat env (buildOllamaRequest body m False) m body)
        \<and> (\<forall>e. oreq_stream (buildOllamaRequest body m e) = e)
        \<and> (req_stream body = Some True \<and> OLLAMA_STREAM env \<longrightarrow>
             (\<exists>out. handleChatCompletions env req = EventStream out))
        \<and> (\<not> (req_stream body = Some True \<and> OLLAMA_STREAM env) \<longrightarrow>
             (\<forall>r ollamaResponse.
                chatCompletion env m (buildOllamaRequest body m False) = Inr r \<and> reply_ok r
                \<and> reply_json r = Inr ollamaResponse \<longrightarrow>
                (\<exists>envelope. handleChatCompletions env req = ChatCompletion envelope))))
   \<and> (\<forall>out. handleChatCompletions env req = EventStream out \<longrightarrow>
        OLLAMA_STREAM env \<and> (\<exists>body. json_body req = Inr body \<and> req_stream body = Some True))"
proof (intro conjI allI impI)
  fix body m
  assume h: "validateAuth (authorization req) = None \<and> json_body req = Inr body
        \<and> validateRequest body = None \<and> req_model body = Some m
        \<and> validateModel m (availableModelIds (local_tags env) (remote_tags env))
        \<and> validateParameters body = None"
  have s: "(case req_stream body of None \<Rightarrow> False | Some b \<Rightarrow> b) \<longleftrightarrow> req_stream body = Some True"
    by (cases "req_stream body") auto
  define e where "e = (req_stream body = Some True \<and> OLLAMA_STREAM env)"
  from h have "handleChatCompletions env req =
          (if e then handleStreamingChat env (buildOllamaRequest body m e) m body
           else handleNonStreamingChat env (buildOllamaRequest body m e) m body)"
    by (simp add: handleChatCompletions_def Let_def s e_def)
  then have "handleChatCompletions env req =
          (if e then handleStreamingChat env (buildOllamaRequest body m True) m body
           else handleNonStreamingChat env (buildOllamaRequest body m False) m body)"
    by (cases e) simp_all
  then show d: "handleChatCompletions env req =
          (if req_stream body = Some True \<and> OLLAMA_STREAM env
           then handleStreamingChat env (buildOllamaRequest body m True) m body
           else handleNonStreamingChat env (buildOllamaRequest body m False) m body)"
    by (simp only: e_def)
  show "oreq_stream (buildOllamaRequest body m e) = e" for e
    by (simp add: buildOllamaRequest_def)
  show "\<exists>out. handleChatCompletions env req = EventStream out"
    if "req_stream body = Some True \<and> OLLAMA_STREAM env"
    using that unfolding d by (simp add: handleStreamingChat_def)
  show "\<exists>envelope. handleChatCompletions env req = ChatCompletion envelope"
    if "\<not> (req_stream body = Some True \<and> OLLAMA_STREAM env)"
       "chatCompletion env m (buildOllamaRequest body m False) = Inr r \<and> reply_ok r
                \<and> reply_json r = Inr ollamaResponse" for r ollamaResponse
  proof -
    from d that(1) have "handleChatCompletions env req =
        handleNonStreamingChat env (buildOllamaRequest body m False) m body"
      by (simp only: if_False)
    with that(2) show ?thesis by (simp add: handleNonStreamingChat_def)
  qed
next
  fix out
  assume e: "handleChatCompletions env req = EventStream out"
  have n: "handleChatCompletions env req \<noteq> EventStream out"
    if "\<not> (OLLAMA_STREAM env \<and> (\<exists>body. json_body req = Inr body \<and> req_stream body = Some True))"
    using that
    by (auto simp: handleChatCompletions_def Let_def validation_never_streams
                   handleNonStreamingChat_never_streams
             split: option.splits sum.splits)
  from e n show "OLLAMA_STREAM env" by blast
  from e n show "\<exists>body. json_body req = Inr body \<and> req_stream body = Some True" by blast
qed

text \<open>
  Claim C10, at a valid turn in three settings: sent with \<^verbatim>\<open>stream: true\<close> while
  \<open>OLLAMA_STREAM\<close> is true, the streaming handler answers with an event stream; sent
  with \<^verbatim>\<open>stream: true\<close> while \<open>OLLAMA_STREAM\<close> is false, the non-streaming handler
  answers with an envelope and not with an event stream; sent with \<^verbatim>\<open>stream: false\<close>
  while \<open>OLLAMA_STREAM\<close> is true, the non-streaming handler answers with an envelope.
\<close>

theorem effective_stream_is_conjunction_witness:
  "handleChatCompletions (scenario True (completionReply ''hello''))
     \<lparr>authorization = None, json_body = Inr (userTurn (Some True))\<rparr>
   = handleStreamingChat (scenario True (completionReply ''hello''))
       (buildOllamaRequest (userTurn (Some True)) ''llama3'' True) ''llama3'' (userTurn (Some True))
   \<and> (\<exists>out. handleChatCompletions (scenario True (completionReply ''hello''))
         \<lparr>authorization = None, json_body = Inr (userTurn (Some True))\<rparr> = EventStream out)
   \<and> handleChatCompletions (scenario False (completionReply ''hello''))
     \<lparr>authorization = None, json_body = Inr (userTurn (Some True))\<rparr>
   = handleNonStreamingChat (scenario False (completionReply ''hello''))
       (buildOllamaRequest (userTurn (Some True)) ''llama3'' False) ''llama3'' (userTurn (Some True))
   \<and> (\<exists>envelope. handleChatCompletions (scenario False (completionReply ''hello''))
         \<lparr>authorization = None, json_body = Inr (userTurn (Some True))\<rparr> = ChatCompletion envelope)
   \<and> (\<forall>out. handleChatCompletions (scenario False (completionReply ''hello''))
         \<lparr>authorization = None, json_body = Inr (userTurn (Some True))\<rparr> \<noteq> EventStream out)
   \<and> handleChatCompletions (scenario True (completionReply ''hello''))
     \<lparr>authorization = None, json_body = Inr (userTurn (Some False))\<rparr>
   = handleNonStreamingChat (scenario True (completionReply ''hello''))
       (buildOllamaRequest (userTurn (Some False)) ''llama3'' False) ''llama3'' (userTurn (Some False))
   \<and> (\<exists>envelope. handleChatCompletions (scenario True (completionReply ''hello''))
         \<lparr>authorization = None, json_body = Inr (userTurn (Some False))\<rparr> = ChatCompletion envelope)"
proof -
  let ?on = "scenario True (completionReply ''hello'')"
  let ?off = "scenario False (completionReply ''hello'')"
  let ?R = "\<lparr>resp_message = Some \<lparr>rmsg_content = Some ''hello''\<rparr>,
             resp_prompt_eval_count = Some 3, resp_eval_count = Some 5\<rparr>"
  have o: "OLLAMA_STREAM (scenario g r) = g" for g r by (simp add: scenario_def)
  have g: "validateAuth (authorization \<lparr>authorization = None, json_body = Inr (userTurn s)\<rparr>) = None
             \<and> json_body \<lparr>authorization = None, json_body = Inr (userTurn s)\<rparr> = Inr (userTurn s)
             \<and> validateRequest (userTurn s) = None \<and> req_model (userTurn s) = Some ''llama3''
             \<and> validateModel ''llama3''
                 (availableModelIds (local_tags (scenario f (completionReply ''hello'')))
                                    (remote_tags (scenario f (completionReply ''hello''))))
             \<and> validateParameters (userTurn s) = None" for s f
    by (simp add: validateAuth_examples validateRequest_userTurn validateParameters_userTurn
                  availableModelIds_scenario validateModel_def userTurn_fields)
  have u: "chatCompletion (scenario f (completionReply ''hello'')) ''llama3'' rq
             = Inr (completionReply ''hello'')
           \<and> reply_ok (completionReply ''hello'')
           \<and> reply_json (completionReply ''hello'') = Inr ?R" for f rq
    by (simp add: chatCompletion_scenario completionReply_fields)
  note a = effective_stream_is_conjunction
             [of "\<lparr>authorization = None, json_body = Inr (userTurn (Some True))\<rparr>" ?on,
              THEN conjunct1, rule_format, OF g]
  note b = effective_stream_is_conjunction
             [of "\<lparr>authorization = None, json_body = Inr (userTurn (Some True))\<rparr>" ?off,
              THEN conjunct1, rule_format, OF g]
  note b2 = effective_stream_is_conjunction
             [of "\<lparr>authorization = None, json_body = Inr (userTurn (Some True))\<rparr>" ?off,
              THEN conjunct2, rule_format]
  note c = effective_stream_is_conjunction
             [of "\<lparr>authorization = None, json_body = Inr (userTurn (Some False))\<rparr>" ?on,
              THEN conjunct1, rule_format, OF g]
  have both: "req_stream (userTurn (Some True)) = Some True \<and> OLLAMA_STREAM ?on"
    by (simp add: userTurn_fields o)
  have noff: "\<not> (req_stream (userTurn (Some True)) = Some True \<and> OLLAMA_STREAM ?off)"
    by (simp add: o)
  have nreq: "\<not> (req_stream (userTurn (Some False)) = Some True \<and> OLLAMA_STREAM ?on)"
    by (simp add: userTurn_fields)
  have 1: "handleChatCompletions ?on \<lparr>authorization = None, json_body = Inr (userTurn (Some True))\<rparr>
     = handleStreamingChat ?on (buildOllamaRequest (userTurn (Some True)) ''llama3'' True)
         ''llama3'' (userTurn (Some True))"
    using a[THEN conjunct1] both by (simp only: if_True simp_thms)
  have 2: "\<exists>out. handleChatCompletions ?on
         \<lparr>authorization = None, json_body = Inr (userTurn (Some True))\<rparr> = EventStream out"
    by (rule a[THEN conjunct2, THEN conjunct2, THEN conjunct1, THEN mp, OF both])
  have 3: "handleChatCompletions ?off \<lparr>authorization = None, json_body = Inr (userTurn (Some True))\<rparr>
     = handleNonStreamingChat ?off (buildOllamaRequest (userTurn (Some True)) ''llama3'' False)
         ''llama3'' (userTurn (Some True))"
    using b[THEN conjunct1] noff by (simp only: if_False)
  have 4: "\<exists>envelope. handleChatCompletions ?off
         \<lparr>authorization = None, json_body = Inr (userTurn (Some True))\<rparr> = ChatCompletion envelope"
    by (rule b[THEN conjunct2, THEN conjunct2, THEN conjunct2, THEN mp, OF noff, rule_format, OF u])
  have 5: "\<forall>out. handleChatCompletions ?off
         \<lparr>authorization = None, json_body = Inr (userTurn (Some True))\<rparr> \<noteq> EventStream out"
  proof (intro allI notI)
    fix out
    assume "handleChatCompletions ?off
         \<lparr>authorization = None, json_body = Inr (userTurn (Some True))\<rparr> = EventStream out"
    from b2[OF this] have "OLLAMA_STREAM ?off" by (rule conjunct1)
    then show False by (simp add: o)
  qed
  have 6: "handleChatCompletions ?on \<lparr>authorization = None, json_body = Inr (userTurn (Some False))\<rparr>
     = handleNonStreamingChat ?on (buildOllamaRequest (userTurn (Some False)) ''llama3'' False)
         ''llama3'' (userTurn (Some False))"
    using c[THEN conjunct1] nreq by (simp only: if_False)
  have 7: "\<exists>envelope. handleChatCompletions ?on
         \<lparr>authorization = None, json_body = Inr (userTurn (Some False))\<rparr> = ChatCompletion envelope"
    by (rule c[THEN conjunct2, THEN conjunct2, THEN conjunct2, THEN mp, OF nreq, rule_format, OF u])
  from 1 2 3 4 5 6 7 show ?thesis by (intro conjI)
qed


subsection \<open>The streaming pipeline\<close>

lemma splitNL_nonempty [simp]: "splitNL s \<noteq> []"
  by (induction s) (auto split: list.splits)

lemma splitNL_append:
  "splitNL (a @ b) = butlast (splitNL a) @ splitNL (last (splitNL a) @ b)"
proof (induction a)
  case Nil
  show ?case by simp
next
  case (Cons c a)
  show ?case
  proof (cases "c = CHR 0x0A")
    case True
    with Cons show ?thesis by simp
  next
    case False
    obtain x xs where sa: "splitNL a = x # xs" by (cases "splitNL a") auto
    show ?thesis
    proof (cases xs)
      case Nil
      with sa Cons False show ?thesis by (simp split: list.splits)
    next
      case (Cons y ys)
      with sa Cons.IH False show ?thesis by (simp split: list.splits)
    qed
  qed
qed

lemma splitNL_no_newline: "CHR 0x0A \<notin> set s \<Longrightarrow> splitNL s = [s]"
  by (induction s) auto

lemma last_splitNL_no_newline: "CHR 0x0A \<notin> set (last (splitNL s))"
proof (induction s)
  case Nil
  show ?case by simp
next
  case (Cons c s)
  obtain x xs where sa: "splitNL s = x # xs" by (cases "splitNL s") auto
  with Cons show ?case by (cases xs) (auto split: list.splits)
qed

lemma butlast_splitNL_append:
  "butlast (splitNL (a @ b)) = butlast (splitNL a) @ butlast (splitNL (last (splitNL a) @ b))"
  by (subst splitNL_append) (simp add: butlast_append)

lemma last_splitNL_append:
  "last (splitNL (a @ b)) = last (splitNL (last (splitNL a) @ b))"
  by (subst splitNL_append) simp

lemma processLine_silent:
  "trim l \<noteq> [] \<longrightarrow> carriesNothing l \<Longrightarrow> processLine env l st = (st, False)"
  by (auto simp: processLine_def carriesNothing_def Let_def split: option.splits)

lemma processLines_silent:
  "silentLines ls \<Longrightarrow> processLines env ls st = (st, False)"
  by (induction ls) (simp_all add: silentLines_def processLine_silent)

lemma readLoop_silent:
  assumes "noReadThrows evs"
      and "\<not> hasFinished st" and "\<not> controllerClosed st"
      and "CHR 0x0A \<notin> set (buffer st)"
      and "silentLines (butlast (splitNL (buffer st @ upstreamText evs)))"
  shows "readLoop env evs st =
           LoopEnds (st\<lparr>buffer := last (splitNL (buffer st @ upstreamText evs))\<rparr>)"
  using assms
proof (induction evs arbitrary: st)
  case Nil
  then show ?case by (simp add: splitNL_no_newline)
next
  case (Cons ev evs)
  from Cons.prems(1) obtain t where ev: "ev = Bytes t"
    by (cases ev) (auto simp: noReadThrows_def)
  from Cons.prems(1) have nt: "noReadThrows evs" by (simp add: noReadThrows_def)
  let ?lines = "splitNL (buffer st @ t)"
  let ?st1 = "st\<lparr>buffer := last ?lines\<rparr>"
  have sp: "butlast (splitNL (buffer st @ upstreamText (ev # evs))) =
        butlast ?lines @ butlast (splitNL (last ?lines @ upstreamText evs))"
    using butlast_splitNL_append[of "buffer st @ t" "upstreamText evs"] ev by simp
  from Cons.prems(5) have s1: "silentLines (butlast ?lines)"
    and s2: "silentLines (butlast (splitNL (last ?lines @ upstreamText evs)))"
    unfolding sp by (auto simp: silentLines_def)
  have pl: "processLines env (butlast ?lines) ?st1 = (?st1, False)"
    by (rule processLines_silent[OF s1])
  have ih: "readLoop env evs ?st1 =
      LoopEnds (?st1\<lparr>buffer := last (splitNL (buffer ?st1 @ upstreamText evs))\<rparr>)"
    by (rule Cons.IH) (use nt Cons.prems s2 last_splitNL_no_newline in auto)
  have la: "last (splitNL (buffer st @ upstreamText (ev # evs))) =
        last (splitNL (last ?lines @ upstreamText evs))"
    using last_splitNL_append[of "buffer st @ t" "upstreamText evs"] ev by simp
  show ?case
    using Cons.prems(2,3) ev pl ih la by (simp add: Let_def)
qed

text \<open>
  Claim C2. When the consumer stays connected, the backend answers 2xx with a body, no
  read of the body throws, and the body closes without a line that carries content or a
  completion flag, the stream is exactly: the role chunk, one content chunk with the
  placeholder \<^verbatim>\<open>Response received from model.\<close>, the chunk with finish reason \<open>stop\<close>,
  and the sentinel.
\<close>

theorem silent_upstream_gets_placeholder:
  assumes "cancelAfter env = None"
      and "chatCompletion env model ollamaRequest = Inr r"
      and "reply_ok r" and "reply_body r = Some reads"
      and "noReadThrows reads" and "silentUpstream reads"
  shows "handleStreamingChat env ollamaRequest model originalRequest =
           EventStream [Chunk (DeltaRole ''assistant'') None,
                        Chunk (DeltaContent (JText ''Response received from model.'')) None,
                        Chunk DeltaEmpty (Some ''stop''),
                        Sentinel]"
proof -
  let ?st0 = "writeChunk env assistantRoleChunk initialState"
  have st0: "buffer ?st0 = []" "\<not> hasFinished ?st0" "\<not> controllerClosed ?st0"
            "enqueued ?st0 = [assistantRoleChunk]" "\<not> hasContentBeenSent ?st0"
    using assms(1) by (simp_all add: writeChunk_def canEnqueue_def initialState_def)
  from assms(6) have sl: "silentLines (butlast (splitNL (buffer ?st0 @ upstreamText reads)))"
    and tl: "trim (last (splitNL (upstreamText reads))) \<noteq> [] \<longrightarrow>
             carriesNothing (trim (last (splitNL (upstreamText reads))))"
    by (simp_all add: silentUpstream_def Let_def st0)
  have loop: "readLoop env reads ?st0 =
      LoopEnds (?st0\<lparr>buffer := last (splitNL (upstreamText reads))\<rparr>)"
    using readLoop_silent[OF assms(5) st0(2) st0(3) _ sl, of env] st0(1) by simp
  have fin: "enqueued (finishStream env (?st0\<lparr>buffer := last (splitNL (upstreamText reads))\<rparr>)) =
      [assistantRoleChunk, contentChunk (JText ''Response received from model.''), finalChunk, Sentinel]"
    using tl assms(1) st0
    by (auto simp: finishStream_def carriesNothing_def Let_def
                   ensureMinimalResponse_def writeChunk_def safeClose_def canEnqueue_def
             split: option.splits)
  show ?thesis
    using assms(2,3,4) loop fin
    by (simp add: handleStreamingChat_def streamStart_def assistantRoleChunk_def
                  contentChunk_def finalChunk_def)
qed



text \<open>
  Claim C2, at a body served in four reads: a line that is not JSON, a line break, a
  line whose content is the number \<^verbatim>\<open>1e-400\<close> (which is zero, so falsy), and an
  unterminated JSON object with neither \<open>message\<close> nor \<open>done\<close>.
\<close>

theorem silent_upstream_gets_placeholder_witness:
  "handleStreamingChat
     (scenario True
        (bodyReply [Bytes ''not json'', Bytes [CHR 0x0A],
                    Bytes (''{\"message\":{\"content\":1e-400}}'' @ [CHR 0x0A]),
                    Bytes ''{\"model\":\"llama3\"}'']))
     (buildOllamaRequest (userTurn (Some True)) ''llama3'' True) ''llama3'' (userTurn (Some True))
   = EventStream [Chunk (DeltaRole ''assistant'') None,
                  Chunk (DeltaContent (JText ''Response received from model.'')) None,
                  Chunk DeltaEmpty (Some ''stop''),
                  Sentinel]"
proof -
  let ?reads = "[Bytes ''not json'', Bytes [CHR 0x0A],
                 Bytes (''{\"message\":{\"content\":1e-400}}'' @ [CHR 0x0A]),
                 Bytes ''{\"model\":\"llama3\"}'']"
  have n: "noReadThrows ?reads" by (simp add: noReadThrows_def)
  have c1: "carriesNothing ''not json''"
    by (simp add: carriesNothing_def readFrame_def jsonEval)
  have c2: "carriesNothing ''{\"message\":{\"content\":1e-400}}''"
    by (simp add: carriesNothing_def readFrame_def jsonEval truthyOpt_def numEval Let_def)
  have c3: "carriesNothing ''{\"model\":\"llama3\"}''"
    by (simp add: carriesNothing_def readFrame_def jsonEval truthyOpt_def Let_def)
  have s: "silentUpstream ?reads"
    by (simp add: silentUpstream_def silentLines_def trim_def isJsWhitespace_def c1 c2 c3 Let_def)
  show ?thesis
    by (rule silent_upstream_gets_placeholder
              [OF scenario_connected chatCompletion_scenario bodyReply_fields n s])
qed

text \<open>
  A line is read by the code units of its keys: the key \<^verbatim>\<open>"\u016Dessage"\<close> is not the
  key \<open>message\<close>, so the content of the line below is \<open>x\<close>, and the line is not silent.
\<close>

lemma readFrame_escaped_key:
  "readFrame (''{\"message\":{\"content\":\"x\"},\"'' @ CHR 0x5C # ''u016Dessage\":null}'')
     = Some \<lparr>frame_content = Some (JText ''x''), frame_done = False\<rparr>"
  by (simp add: readFrame_def jsonEval truthyOpt_def Let_def)

lemma isContentChunk_contentChunk [simp]: "isContentChunk (contentChunk c)"
  by (auto simp: isContentChunk_def)

lemma processLine_streaming:
  assumes "cancelAfter env = None" and "streaming st"
  shows "case processLine env l st of
           (st', returned) \<Rightarrow> if returned then completed st' else streaming st'"
proof -
  from assms(2) obtain cs where
    st: "\<not> controllerClosed st" "\<not> hasFinished st" "enqueued st = assistantRoleChunk # cs"
        "list_all isContentChunk cs" "hasContentBeenSent st \<longleftrightarrow> cs \<noteq> []"
    by (auto simp: streaming_def)
  show ?thesis
  proof (cases "trim l \<noteq> [] \<and> readFrame l \<noteq> None")
    case False
    with assms(2) show ?thesis by (auto simp: processLine_def)
  next
    case True
    then obtain f where f: "readFrame l = Some f" by auto
    define st1 where "st1 = (case frame_content f of
                      Some c \<Rightarrow>
                        if \<not> controllerClosed st
                        then (writeChunk env (contentChunk c) st)\<lparr>hasContentBeenSent := True\<rparr>
                        else st
                    | None \<Rightarrow> st)"
    have s1: "streaming st1"
      using st assms(1)
      by (auto simp: st1_def streaming_def writeChunk_def canEnqueue_def isContentChunk_def
               split: option.splits)
    then obtain cs1 where
      st1: "\<not> controllerClosed st1" "\<not> hasFinished st1" "enqueued st1 = assistantRoleChunk # cs1"
        "list_all isContentChunk cs1"
      by (auto simp: streaming_def)
    have pl: "processLine env l st =
        (if frame_done f
         then (safeClose env ((writeChunk env finalChunk st1)\<lparr>hasFinished := True\<rparr>), True)
         else (st1, False))"
      using True f st st1 by (simp add: processLine_def st1_def Let_def)
    show ?thesis
    proof (cases "frame_done f")
      case False
      with pl s1 show ?thesis by simp
    next
      case True
      have "completed (safeClose env ((writeChunk env finalChunk st1)\<lparr>hasFinished := True\<rparr>))"
        using st1 assms(1)
        by (auto simp: completed_def safeClose_def writeChunk_def canEnqueue_def)
      with pl True show ?thesis by simp
    qed
  qed
qed

lemma processLines_streaming:
  assumes "cancelAfter env = None" and "streaming st"
  shows "case processLines env ls st of
           (st', returned) \<Rightarrow> if returned then completed st' else streaming st'"
  using assms(2)
proof (induction ls arbitrary: st)
  case Nil
  then show ?case by simp
next
  case (Cons l ls)
  obtain st1 ret where p: "processLine env l st = (st1, ret)" by (cases "processLine env l st")
  from processLine_streaming[OF assms(1) Cons.prems, of l] p
  have r: "if ret then completed st1 else streaming st1" by simp
  show ?case
  proof (cases ret)
    case True
    with p r show ?thesis by simp
  next
    case False
    with r have s: "streaming st1" by simp
    then have "\<not> controllerClosed st1" by (simp add: streaming_def)
    with p False Cons.IH[OF s] show ?thesis by simp
  qed
qed

lemma streaming_buffer [simp]: "streaming (st\<lparr>buffer := b\<rparr>) = streaming st"
  by (simp add: streaming_def)

lemma readLoop_streaming:
  assumes "cancelAfter env = None" and "streaming st"
  shows "case readLoop env evs st of
           LoopEnds s \<Rightarrow> streaming s
         | Returned s \<Rightarrow> completed s
         | Thrown m s \<Rightarrow> streaming s \<and> \<not> noReadThrows evs"
  using assms(2)
proof (induction evs arbitrary: st)
  case Nil
  then show ?case by simp
next
  case (Cons ev evs)
  from Cons.prems have opn: "\<not> hasFinished st" "\<not> controllerClosed st"
    by (simp_all add: streaming_def)
  show ?case
  proof (cases ev)
    case (ReadThrows m)
    with opn Cons.prems show ?thesis by (simp add: noReadThrows_def)
  next
    case (Bytes t)
    let ?lines = "splitNL (buffer st @ t)"
    let ?st1 = "st\<lparr>buffer := last ?lines\<rparr>"
    obtain st2 ret where p: "processLines env (butlast ?lines) ?st1 = (st2, ret)"
      by (cases "processLines env (butlast ?lines) ?st1")
    have s1: "streaming ?st1" using Cons.prems by simp
    from processLines_streaming[OF assms(1) s1, of "butlast ?lines"] p
    have r: "if ret then completed st2 else streaming st2" by simp
    show ?thesis
    proof (cases ret)
      case True
      with r p opn Bytes show ?thesis by (simp add: Let_def)
    next
      case False
      with r have "streaming st2" by simp
      from Cons.IH[OF this] p opn Bytes False show ?thesis
        by (auto simp: Let_def noReadThrows_def split: loop_exit.splits)
    qed
  qed
qed

lemma finishStream_streaming:
  assumes "cancelAfter env = None" and "streaming st"
  shows "\<exists>cs. list_all isContentChunk cs
           \<and> (if trailingDone (buffer st)
               then enqueued (finishStream env st) = assistantRoleChunk # cs @ [Sentinel]
               else enqueued (finishStream env st) = assistantRoleChunk # cs @ [finalChunk, Sentinel]
                    \<and> cs \<noteq> [])"
proof -
  from assms(2) obtain cs where
    st: "\<not> controllerClosed st" "\<not> hasFinished st" "enqueued st = assistantRoleChunk # cs"
        "list_all isContentChunk cs" "hasContentBeenSent st \<longleftrightarrow> cs \<noteq> []"
    by (auto simp: streaming_def)
  show ?thesis
  proof (cases "trim (buffer st) \<noteq> [] \<and> readFrame (trim (buffer st)) \<noteq> None")
    case False
    then have nd: "\<not> trailingDone (buffer st)" by (auto simp: trailingDone_def)
    from False st have fs: "finishStream env st = ensureMinimalResponse env st"
      by (auto simp: finishStream_def Let_def)
    show ?thesis
    proof (cases "cs = []")
      case True
      with st assms(1) have "enqueued (ensureMinimalResponse env st) =
          assistantRoleChunk # [contentChunk (JText ''Response received from model.'')] @ [finalChunk, Sentinel]"
        by (simp add: ensureMinimalResponse_def Let_def writeChunk_def safeClose_def canEnqueue_def)
      with nd fs show ?thesis
        by (intro exI[of _ "[contentChunk (JText ''Response received from model.'')]"])
           simp
    next
      case False
      with st assms(1) have "enqueued (ensureMinimalResponse env st) =
          assistantRoleChunk # cs @ [finalChunk, Sentinel]"
        by (simp add: ensureMinimalResponse_def Let_def writeChunk_def safeClose_def canEnqueue_def)
      with nd fs False st(4) show ?thesis by (intro exI[of _ cs]) simp
    qed
  next
    case True
    then obtain f where f: "readFrame (trim (buffer st)) = Some f" by auto
    define st1 where "st1 = (case frame_content f of
                             Some c \<Rightarrow>
                               if \<not> controllerClosed st
                               then (writeChunk env (contentChunk c) st)\<lparr>hasContentBeenSent := True\<rparr>
                               else st
                           | None \<Rightarrow> st)"
    have s1: "streaming st1"
      using st assms(1)
      by (auto simp: st1_def streaming_def writeChunk_def canEnqueue_def isContentChunk_def
               split: option.splits)
    then obtain cs1 where
      st1: "\<not> controllerClosed st1" "\<not> hasFinished st1" "enqueued st1 = assistantRoleChunk # cs1"
        "list_all isContentChunk cs1" "hasContentBeenSent st1 \<longleftrightarrow> cs1 \<noteq> []"
      by (auto simp: streaming_def)
    have fs: "finishStream env st =
        (if frame_done f then safeClose env (st1\<lparr>hasFinished := True\<rparr>)
         else ensureMinimalResponse env st1)"
      using True f st st1 by (simp add: finishStream_def st1_def Let_def)
    have td: "trailingDone (buffer st) = frame_done f"
      using True f by (simp add: trailingDone_def)
    show ?thesis
    proof (cases "frame_done f")
      case True
      with fs td st1 assms(1) show ?thesis
        by (intro exI[of _ cs1]) (simp add: safeClose_def canEnqueue_def)
    next
      case nd: False
      show ?thesis
      proof (cases "cs1 = []")
        case True
        with st1 assms(1) have "enqueued (ensureMinimalResponse env st1) =
            assistantRoleChunk # [contentChunk (JText ''Response received from model.'')] @ [finalChunk, Sentinel]"
          by (simp add: ensureMinimalResponse_def Let_def writeChunk_def safeClose_def canEnqueue_def)
        with nd fs td show ?thesis
          by (intro exI[of _ "[contentChunk (JText ''Response received from model.'')]"])
             simp
      next
        case False
        with st1 assms(1) have "enqueued (ensureMinimalResponse env st1) =
            assistantRoleChunk # cs1 @ [finalChunk, Sentinel]"
          by (simp add: ensureMinimalResponse_def Let_def writeChunk_def safeClose_def canEnqueue_def)
        with nd fs td False st1(4) show ?thesis by (intro exI[of _ cs1]) simp
      qed
    qed
  qed
qed

lemma writeError_open:
  assumes "cancelAfter env = None" and "\<not> controllerClosed st"
  shows "enqueued (writeError env message st) =
           enqueued st @ [assistantRoleChunk, contentChunk (JText (''Error: '' @ message)),
                          finalChunk, Sentinel]"
  using assms by (simp add: writeError_def Let_def writeChunk_def safeClose_def canEnqueue_def)


lemma processLine_buffer: "buffer (fst (processLine env l st)) = buffer st"
  by (auto simp: processLine_def Let_def writeChunk_def safeClose_def split: option.splits)

lemma processLines_buffer: "buffer (fst (processLines env ls st)) = buffer st"
proof (induction ls arbitrary: st)
  case Nil
  show ?case by simp
next
  case (Cons l ls)
  obtain st1 ret where p: "processLine env l st = (st1, ret)" by (cases "processLine env l st")
  with processLine_buffer[of env l st] have "buffer st1 = buffer st" by simp
  with p Cons.IH[of st1] show ?case by simp
qed

lemma readLoop_LoopEnds_buffer:
  assumes "cancelAfter env = None" and "streaming st" and "CHR 0x0A \<notin> set (buffer st)"
      and "readLoop env evs st = LoopEnds s"
  shows "buffer s = last (splitNL (buffer st @ upstreamText evs))"
  using assms(2,3,4)
proof (induction evs arbitrary: st)
  case Nil
  then show ?case by (simp add: splitNL_no_newline)
next
  case (Cons ev evs)
  from Cons.prems have opn: "\<not> hasFinished st" "\<not> controllerClosed st"
    by (simp_all add: streaming_def)
  show ?case
  proof (cases ev)
    case (ReadThrows m)
    with opn Cons.prems show ?thesis by simp
  next
    case (Bytes t)
    let ?lines = "splitNL (buffer st @ t)"
    let ?st1 = "st\<lparr>buffer := last ?lines\<rparr>"
    obtain st2 ret where p: "processLines env (butlast ?lines) ?st1 = (st2, ret)"
      by (cases "processLines env (butlast ?lines) ?st1")
    have s1: "streaming ?st1" using Cons.prems by simp
    from processLines_streaming[OF assms(1) s1, of "butlast ?lines"] p
    have r: "if ret then completed st2 else streaming st2" by simp
    from Cons.prems(3) p opn Bytes have nr: "\<not> ret" and rl: "readLoop env evs st2 = LoopEnds s"
      by (auto simp: Let_def split: if_splits)
    from r nr have s2: "streaming st2" by simp
    have b2: "buffer st2 = last ?lines"
      using processLines_buffer[of env "butlast ?lines" ?st1] p by simp
    have "buffer s = last (splitNL (buffer st2 @ upstreamText evs))"
      by (rule Cons.IH[OF s2 _ rl]) (simp add: b2 last_splitNL_no_newline)
    also have "\<dots> = last (splitNL (buffer st @ upstreamText (ev # evs)))"
      using last_splitNL_append[of "buffer st @ t" "upstreamText evs"] Bytes b2 by simp
    finally show ?thesis .
  qed
qed

lemma role_not_content [simp]:
  "\<not> isContentChunk assistantRoleChunk" "\<not> isContentChunk finalChunk" "\<not> isContentChunk Sentinel"
  "assistantRoleChunk \<noteq> finalChunk" "assistantRoleChunk \<noteq> Sentinel" "finalChunk \<noteq> Sentinel"
  by (auto simp: isContentChunk_def contentChunk_def assistantRoleChunk_def finalChunk_def)

lemma content_chunks_only:
  "list_all isContentChunk cs \<Longrightarrow>
     assistantRoleChunk \<notin> set cs \<and> finalChunk \<notin> set cs \<and> Sentinel \<notin> set cs"
  by (auto simp: list_all_iff)

text \<open>
  The shape of every stream whose consumer stays connected: the role chunk, content
  chunks, and then one of three endings.
\<close>

lemma stream_shape:
  assumes "cancelAfter env = None"
  shows "\<exists>cs. list_all isContentChunk cs \<and> cs \<noteq> [] \<and>
           enqueued (streamStart env ollamaRequest model) =
             assistantRoleChunk # cs @ [finalChunk, Sentinel]
       \<or> (\<exists>cs r reads. list_all isContentChunk cs \<and>
             chatCompletion env model ollamaRequest = Inr r \<and> reply_ok r
             \<and> reply_body r = Some reads \<and>
             (  enqueued (streamStart env ollamaRequest model) =
                  assistantRoleChunk # cs @ [finalChunk, Sentinel]
              \<or> enqueued (streamStart env ollamaRequest model) =
                  assistantRoleChunk # cs @ [Sentinel]
                \<and> trailingDone (last (splitNL (upstreamText reads)))
              \<or> (\<exists>m. enqueued (streamStart env ollamaRequest model) =
                  assistantRoleChunk # cs @
                    [assistantRoleChunk, contentChunk (JText (''Error: '' @ m)), finalChunk, Sentinel])
                \<and> \<not> noReadThrows reads))"
proof -
  have i0: "\<not> controllerClosed initialState" "enqueued initialState = []"
    by (simp_all add: initialState_def)
  have err: "\<exists>cs. list_all isContentChunk cs \<and> cs \<noteq> [] \<and>
           enqueued (writeError env m initialState) =
             assistantRoleChunk # cs @ [finalChunk, Sentinel]" for m
    using writeError_open[OF assms i0(1), of m] i0(2)
    by (intro exI[of _ "[contentChunk (JText (''Error: '' @ m))]"]) simp
  show ?thesis
  proof (cases "chatCompletion env model ollamaRequest")
    case (Inl m)
    with err[of "orElse m ''Internal streaming error''"] i0 show ?thesis
      by (simp add: streamStart_def catchStreamError_def)
  next
    case (Inr r)
    show ?thesis
    proof (cases "reply_ok r")
      case False
      with Inr err[of "''Ollama request failed: '' @ showNat (reply_status r)"]
           err[of "orElse (the (reply_text_error r)) ''Internal streaming error''"] i0
      show ?thesis
        by (auto simp: streamStart_def catchStreamError_def split: option.splits)
    next
      case ok: True
      show ?thesis
      proof (cases "reply_body r")
        case None
        with Inr ok err[of "''No response body from Ollama''"] show ?thesis
          by (simp add: streamStart_def)
      next
        case (Some reads)
        let ?st0 = "writeChunk env assistantRoleChunk initialState"
        have s0: "streaming ?st0" and b0: "buffer ?st0 = []"
          using assms by (simp_all add: streaming_def writeChunk_def canEnqueue_def initialState_def)
        have ss: "streamStart env ollamaRequest model =
            (case readLoop env reads ?st0 of
               Returned st \<Rightarrow> st
             | LoopEnds st \<Rightarrow> finishStream env st
             | Thrown m st \<Rightarrow> catchStreamError env m st)"
          using Inr ok Some by (simp add: streamStart_def)
        note rl = readLoop_streaming[OF assms s0, of reads]
        show ?thesis
        proof (cases "readLoop env reads ?st0")
          case (Returned s)
          with rl have "completed s" by simp
          then obtain cs where "list_all isContentChunk cs"
            "enqueued s = assistantRoleChunk # cs @ [finalChunk, Sentinel]"
            by (auto simp: completed_def)
          with ss Returned Inr ok Some show ?thesis by auto
        next
          case (LoopEnds s)
          with rl have s: "streaming s" by simp
          have b: "buffer s = last (splitNL (upstreamText reads))"
            using readLoop_LoopEnds_buffer[OF assms s0 _ LoopEnds] b0 by simp
          from finishStream_streaming[OF assms s] b obtain cs where
            "list_all isContentChunk cs"
            "if trailingDone (last (splitNL (upstreamText reads)))
               then enqueued (finishStream env s) = assistantRoleChunk # cs @ [Sentinel]
               else enqueued (finishStream env s) = assistantRoleChunk # cs @ [finalChunk, Sentinel]
                    \<and> cs \<noteq> []"
            by auto
          with ss LoopEnds Inr ok Some show ?thesis
            by (cases "trailingDone (last (splitNL (upstreamText reads)))") auto
        next
          case (Thrown m s)
          with rl have s: "streaming s" and nt: "\<not> noReadThrows reads" by simp_all
          then obtain cs where cs: "list_all isContentChunk cs"
            "enqueued s = assistantRoleChunk # cs" "\<not> controllerClosed s"
            by (auto simp: streaming_def)
          from writeError_open[OF assms cs(3), of "orElse m ''Internal streaming error''"] cs
          have "enqueued (catchStreamError env m s) =
             assistantRoleChunk # cs @
               [assistantRoleChunk,
                contentChunk (JText (''Error: '' @ orElse m ''Internal streaming error'')),
                finalChunk, Sentinel]"
            by (simp add: catchStreamError_def)
          with ss Thrown Inr ok Some nt cs(1) show ?thesis by auto
        qed
      qed
    qed
  qed
qed

text \<open>
  When the consumer stays connected, the first chunk of every stream is the synthetic
  chunk with role \<open>assistant\<close>, so it precedes every content chunk, whatever the backend
  sends; and outside one case it is the only role chunk of the stream. The case left out
  is an upstream of which a read of the body throws.
\<close>

lemma role_chunk_first:
  assumes "cancelAfter env = None"
  shows "\<exists>rest. handleStreamingChat env ollamaRequest model originalRequest =
                  EventStream (Chunk (DeltaRole ''assistant'') None # rest)
           \<and> ((\<forall>r reads. chatCompletion env model ollamaRequest = Inr r
                  \<and> reply_body r = Some reads \<longrightarrow> noReadThrows reads)
                \<longrightarrow> Chunk (DeltaRole ''assistant'') None \<notin> set rest)"
proof -
  let ?out = "enqueued (streamStart env ollamaRequest model)"
  have r: "Chunk (DeltaRole ''assistant'') None = assistantRoleChunk"
    by (simp add: assistantRoleChunk_def)
  have "\<exists>rest. ?out = assistantRoleChunk # rest
           \<and> ((\<forall>r reads. chatCompletion env model ollamaRequest = Inr r
                  \<and> reply_body r = Some reads \<longrightarrow> noReadThrows reads)
                \<longrightarrow> assistantRoleChunk \<notin> set rest)"
    using stream_shape[OF assms, of ollamaRequest model]
  proof (elim disjE exE conjE)
    fix cs
    assume "list_all isContentChunk cs" "?out = assistantRoleChunk # cs @ [finalChunk, Sentinel]"
    then show ?thesis
      using content_chunks_only[of cs] by (intro exI[of _ "cs @ [finalChunk, Sentinel]"]) simp
  next
    fix cs r reads
    assume "list_all isContentChunk cs" "?out = assistantRoleChunk # cs @ [finalChunk, Sentinel]"
    then show ?thesis
      using content_chunks_only[of cs] by (intro exI[of _ "cs @ [finalChunk, Sentinel]"]) simp
  next
    fix cs r reads
    assume "list_all isContentChunk cs" "?out = assistantRoleChunk # cs @ [Sentinel]"
    then show ?thesis
      using content_chunks_only[of cs] by (intro exI[of _ "cs @ [Sentinel]"]) simp
  next
    fix cs r reads m
    assume "chatCompletion env model ollamaRequest = Inr r" "reply_body r = Some reads"
       "\<not> noReadThrows reads"
       "?out = assistantRoleChunk # cs @
                    [assistantRoleChunk, contentChunk (JText (''Error: '' @ m)), finalChunk, Sentinel]"
    then show ?thesis
      by (intro exI[of _ "cs @ [assistantRoleChunk, contentChunk (JText (''Error: '' @ m)), finalChunk, Sentinel]"])
         auto
  qed
  then show ?thesis
    unfolding r handleStreamingChat_def by simp
qed

text \<open>
  At a body of one content frame the stream starts with the role chunk and has no other.
\<close>

lemma role_chunk_first_example:
  "\<exists>rest. handleStreamingChat
             (scenario True (bodyReply [Bytes ''{\"message\":{\"content\":\"hi\"}}'', Bytes [CHR 0x0A]]))
             (buildOllamaRequest (userTurn (Some True)) ''llama3'' True) ''llama3''
             (userTurn (Some True))
           = EventStream (Chunk (DeltaRole ''assistant'') None # rest)
         \<and> Chunk (DeltaRole ''assistant'') None \<notin> set rest"
proof -
  let ?reads = "[Bytes ''{\"message\":{\"content\":\"hi\"}}'', Bytes [CHR 0x0A]]"
  let ?env = "scenario True (bodyReply ?reads)"
  let ?rq = "buildOllamaRequest (userTurn (Some True)) ''llama3'' True"
  have n: "\<forall>r reads. chatCompletion ?env ''llama3'' ?rq = Inr r
                  \<and> reply_body r = Some reads \<longrightarrow> noReadThrows reads"
    by (auto simp: chatCompletion_scenario bodyReply_fields noReadThrows_def)
  from role_chunk_first[OF scenario_connected, of True "bodyReply ?reads" ?rq "''llama3''"
                           "userTurn (Some True)"]
  obtain rest where
    w: "handleStreamingChat ?env ?rq ''llama3'' (userTurn (Some True)) =
                  EventStream (Chunk (DeltaRole ''assistant'') None # rest)
           \<and> ((\<forall>r reads. chatCompletion ?env ''llama3'' ?rq = Inr r
                  \<and> reply_body r = Some reads \<longrightarrow> noReadThrows reads)
                \<longrightarrow> Chunk (DeltaRole ''assistant'') None \<notin> set rest)" ..
  from w[THEN conjunct1] w[THEN conjunct2, THEN mp, OF n] show ?thesis
    by (intro exI[of _ rest] conjI)
qed

lemma stream_of_throwing_read:
  "handleStreamingChat
     (scenario True (bodyReply [ReadThrows ''boom'']))
     (buildOllamaRequest (userTurn (Some True)) ''llama3'' True) ''llama3'' (userTurn (Some True))
   = EventStream [Chunk (DeltaRole ''assistant'') None,
                  Chunk (DeltaRole ''assistant'') None,
                  Chunk (DeltaContent (JText ''Error: boom'')) None,
                  Chunk DeltaEmpty (Some ''stop''),
                  Sentinel]"
  by code_simp

text \<open>
  Claim C3 says that every stream carries exactly one role chunk, its first chunk, and
  that a failure path sends the role chunk only if it was not sent yet. The code misses
  it in the case left out above: the \<^verbatim>\<open>catch\<close> around the read loop calls
  \<open>writeError\<close>, which sends a role chunk of its own, after the stream has opened with
  one. A valid turn is sent with \<^verbatim>\<open>stream: true\<close>; the upstream answers 200 and the first
  read of its body throws \<open>boom\<close>. The stream is the role chunk, the role chunk again,
  the error content chunk, the chunk with finish reason \<open>stop\<close> and the sentinel.
\<close>

theorem read_exception_repeats_role_chunk:
  "handleChatCompletions
     (scenario True (bodyReply [ReadThrows ''boom'']))
     \<lparr>authorization = None, json_body = Inr (userTurn (Some True))\<rparr>
   = EventStream [Chunk (DeltaRole ''assistant'') None,
                  Chunk (DeltaRole ''assistant'') None,
                  Chunk (DeltaContent (JText ''Error: boom'')) None,
                  Chunk DeltaEmpty (Some ''stop''),
                  Sentinel]"
  by (simp only: dispatch_userTurn stream_of_throwing_read simp_thms if_True)

text \<open>
  Outside one case, every stream whose consumer stays connected ends with exactly one
  chunk with a finish reason, \<open>stop\<close>, followed by the sentinel, which is the last item.
  The case left out is an upstream whose last line has no line break and carries the
  completion flag.
\<close>

lemma stream_ends_with_stop_and_sentinel:
  assumes "cancelAfter env = None"
      and "\<And>r reads. chatCompletion env model ollamaRequest = Inr r \<Longrightarrow> reply_ok r \<Longrightarrow>
              reply_body r = Some reads \<Longrightarrow>
              \<not> trailingDone (last (splitNL (upstreamText reads)))"
  shows "\<exists>body. handleStreamingChat env ollamaRequest model originalRequest =
                  EventStream (body @ [Chunk DeltaEmpty (Some ''stop''), Sentinel])
           \<and> Sentinel \<notin> set body
           \<and> (\<forall>d reason. Chunk d (Some reason) \<notin> set body)"
proof -
  let ?out = "enqueued (streamStart env ollamaRequest model)"
  have nf: "Chunk d (Some reason) \<notin> set cs" if "list_all isContentChunk cs" for cs d reason
    using that by (auto simp: list_all_iff isContentChunk_def contentChunk_def)
  have "\<exists>body. ?out = body @ [finalChunk, Sentinel] \<and> Sentinel \<notin> set body
           \<and> (\<forall>d reason. Chunk d (Some reason) \<notin> set body)"
    using stream_shape[OF assms(1), of ollamaRequest model]
  proof (elim disjE exE conjE)
    fix cs
    assume "list_all isContentChunk cs" "?out = assistantRoleChunk # cs @ [finalChunk, Sentinel]"
    then show ?thesis
      using content_chunks_only[of cs] nf[of cs]
      by (intro exI[of _ "assistantRoleChunk # cs"]) (simp add: assistantRoleChunk_def)
  next
    fix cs r reads
    assume "list_all isContentChunk cs" "?out = assistantRoleChunk # cs @ [finalChunk, Sentinel]"
    then show ?thesis
      using content_chunks_only[of cs] nf[of cs]
      by (intro exI[of _ "assistantRoleChunk # cs"]) (simp add: assistantRoleChunk_def)
  next
    fix cs r reads
    assume "chatCompletion env model ollamaRequest = Inr r" "reply_ok r" "reply_body r = Some reads"
       "trailingDone (last (splitNL (upstreamText reads)))"
    with assms(2) show ?thesis by blast
  next
    fix cs r reads m
    assume "list_all isContentChunk cs"
       "?out = assistantRoleChunk # cs @
                    [assistantRoleChunk, contentChunk (JText (''Error: '' @ m)), finalChunk, Sentinel]"
    then show ?thesis
      using content_chunks_only[of cs] nf[of cs]
      by (intro exI[of _ "assistantRoleChunk # cs @ [assistantRoleChunk, contentChunk (JText (''Error: '' @ m))]"])
         (simp add: assistantRoleChunk_def contentChunk_def)
  qed
  then show ?thesis
    unfolding handleStreamingChat_def finalChunk_def by simp
qed

lemma stream_of_unterminated_done_frame:
  "handleStreamingChat
     (scenario True
        (bodyReply [Bytes ''{\"message\":{\"role\":\"assistant\",\"content\":\"hi\"},\"done\":true}'']))
     (buildOllamaRequest (userTurn (Some True)) ''llama3'' True) ''llama3'' (userTurn (Some True))
   = EventStream [Chunk (DeltaRole ''assistant'') None,
                  Chunk (DeltaContent (JText ''hi'')) None,
                  Sentinel]"
  by code_simp

text \<open>
  Claim C1 says that every stream ends with exactly one chunk with a finish reason,
  immediately followed by the sentinel, on every completion path. The code misses it in
  the case left out above. A valid turn is sent with \<^verbatim>\<open>stream: true\<close>; the upstream
  answers 200, sends the single frame
  \<^verbatim>\<open>{"message":{"role":"assistant","content":"hi"},"done":true}\<close> with no line break and
  closes. The stream is the role chunk, the content chunk and the sentinel: no chunk
  carries a finish reason.
\<close>

theorem final_buffer_done_without_finish_chunk:
  "handleChatCompletions
     (scenario True
        (bodyReply [Bytes ''{\"message\":{\"role\":\"assistant\",\"content\":\"hi\"},\"done\":true}'']))
     \<lparr>authorization = None, json_body = Inr (userTurn (Some True))\<rparr>
   = EventStream [Chunk (DeltaRole ''assistant'') None,
                  Chunk (DeltaContent (JText ''hi'')) None,
                  Sentinel]"
  by (simp only: dispatch_userTurn stream_of_unterminated_done_frame simp_thms if_True)

end
